theory Spec2Isabelle
  imports Main "HOL-Library.Word" "HOL-Library.Monad_Syntax"
begin

section \<open>Errors\<close>

text \<open>
  Go error values as the sources build them. \<open>Canceled\<close> is the sentinel
  \<^verbatim>\<open>context.Canceled\<close>; \<open>ErrorString s\<close> is what \<^verbatim>\<open>fmt.Errorf\<close>
  returns for a format without \<^verbatim>\<open>%w\<close> (and what any opaque failure of a
  collaborator looks like); \<open>WrapError s e\<close> is what \<^verbatim>\<open>fmt.Errorf\<close> returns for
  a format with \<^verbatim>\<open>%w\<close>: the formatted text \<open>s\<close> and the wrapped error \<open>e\<close>.
\<close>

datatype error = Canceled | ErrorString string | WrapError string error

text \<open>The method \<^verbatim>\<open>Error()\<close>: the text of an error.\<close>

fun Error :: "error \<Rightarrow> string" where
  "Error Canceled = ''context canceled''"
| "Error (ErrorString s) = s"
| "Error (WrapError s e) = s"

text \<open>\<^verbatim>\<open>errors.Is(err, context.Canceled)\<close>: walks the chain of wrapped errors.\<close>

fun errors_Is_Canceled :: "error \<Rightarrow> bool" where
  "errors_Is_Canceled Canceled = True"
| "errors_Is_Canceled (ErrorString s) = False"
| "errors_Is_Canceled (WrapError s e) = errors_Is_Canceled e"

section \<open>Dynamic payloads\<close>

text \<open>
  The values an \<^verbatim>\<open>interface{}\<close> of an unstructured object holds after decoding:
  nil, a bool, a number, a string, a \<^verbatim>\<open>[]interface{}\<close> or a
  \<^verbatim>\<open>map[string]interface{}\<close>. A Go map is an association list read with
  \<open>map_of\<close>.
\<close>

datatype iface =
    INil
  | IBool bool
  | INumber int
  | IString string
  | ISlice "iface list"
  | IMap "(string \<times> iface) list"

type_synonym object = "(string \<times> iface) list"

text \<open>\<^verbatim>\<open>m[k]\<close>: a missing key reads as the nil interface.\<close>

definition index :: "object \<Rightarrow> string \<Rightarrow> iface" where
  "index m k = (case map_of m k of None \<Rightarrow> INil | Some v \<Rightarrow> v)"

text \<open>The type assertions \<^verbatim>\<open>v, ok := x.(T)\<close>: \<open>None\<close> is \<^verbatim>\<open>ok == false\<close>.\<close>

fun asMap :: "iface \<Rightarrow> object option" where
  "asMap (IMap m) = Some m"
| "asMap _ = None"

fun asSlice :: "iface \<Rightarrow> iface list option" where
  "asSlice (ISlice xs) = Some xs"
| "asSlice _ = None"

fun asString :: "iface \<Rightarrow> string option" where
  "asString (IString s) = Some s"
| "asString _ = None"

fun asBool :: "iface \<Rightarrow> bool option" where
  "asBool (IBool b) = Some b"
| "asBool _ = None"

section \<open>The cluster handle\<close>

text \<open>
  \<^verbatim>\<open>schema.GroupVersionKind{Group, Version, Kind}\<close> and
  \<^verbatim>\<open>schema.GroupVersionResource{Group, Version, Resource}\<close>, fields in this order.
\<close>

datatype GroupVersionKind = GroupVersionKind string string string

datatype GroupVersionResource = GroupVersionResource string string string

text \<open>
  The derived \<^verbatim>\<open>*kubernetes.Kubernetes\<close> is used through one method only,
  \<^verbatim>\<open>ResourcesGet(ctx, gvk, namespace, name)\<close>, whose code is not part of these
  sources: the handle is that method, a function from the request to the fetched
  object or the error.
\<close>

type_synonym Kubernetes = "GroupVersionKind \<Rightarrow> string \<Rightarrow> string \<Rightarrow> error + object"

section \<open>Package updates: reading the ClusterVersion resource\<close>

definition clusterVersionGVK :: GroupVersionKind where
  "clusterVersionGVK = GroupVersionKind ''config.openshift.io'' ''v1'' ''ClusterVersion''"

definition GetClusterVersion :: "Kubernetes \<Rightarrow> error + string" where
  "GetClusterVersion k =
    (case k clusterVersionGVK '''' ''version'' of
       Inl err \<Rightarrow>
         Inl (WrapError (''cannot retrieve OpenShift ClusterVersion resource: '' @ Error err) err)
     | Inr obj \<Rightarrow>
        (case asMap (index obj ''status'') of
           None \<Rightarrow> Inl (ErrorString ''unexpected ClusterVersion payload: missing status'')
         | Some status \<Rightarrow>
            (case (case asMap (index status ''desired'') of
                     None \<Rightarrow> None
                   | Some desired \<Rightarrow>
                      (case asString (index desired ''version'') of
                         None \<Rightarrow> None
                       | Some v \<Rightarrow> if v \<noteq> [] then Some v else None)) of
               Some v \<Rightarrow> Inr v
             | None \<Rightarrow>
                (case (case asSlice (index status ''history'') of
                         None \<Rightarrow> None
                       | Some history \<Rightarrow>
                          (if length history > 0 then
                             (case asMap (history ! 0) of
                                None \<Rightarrow> None
                              | Some entry \<Rightarrow>
                                 (case asString (index entry ''version'') of
                                    None \<Rightarrow> None
                                  | Some v \<Rightarrow> if v \<noteq> [] then Some v else None))
                           else None)) of
                   Some v \<Rightarrow> Inr v
                 | None \<Rightarrow>
                     Inl (ErrorString ''version field not found in ClusterVersion status'')))))"

record Update =
  Version :: string
  Image :: string

text \<open>
  One pass of the loop body of \<^verbatim>\<open>GetAvailableUpdates\<close>: \<open>None\<close> is an entry the
  loop skips (\<^verbatim>\<open>continue\<close>, or the final test \<^verbatim>\<open>upd.Version != ""\<close> failing).
\<close>

definition updateOfEntry :: "iface \<Rightarrow> Update option" where
  "updateOfEntry entry =
    (case asMap entry of
       None \<Rightarrow> None
     | Some updMap \<Rightarrow>
        (let upd = \<lparr>Version = '''', Image = ''''\<rparr>;
             upd = (case asString (index updMap ''version'') of
                      Some v \<Rightarrow> upd\<lparr>Version := v\<rparr> | None \<Rightarrow> upd);
             upd = (case asString (index updMap ''image'') of
                      Some img \<Rightarrow> upd\<lparr>Image := img\<rparr> | None \<Rightarrow> upd)
         in if Version upd \<noteq> '''' then Some upd else None))"

text \<open>The \<^verbatim>\<open>for _, entry := range availableUpdatesIface\<close> loop, appending to \<open>updates\<close>.\<close>

fun availableUpdatesLoop :: "iface list \<Rightarrow> Update list \<Rightarrow> Update list" where
  "availableUpdatesLoop [] updates = updates"
| "availableUpdatesLoop (entry # rest) updates =
    (case updateOfEntry entry of
       None \<Rightarrow> availableUpdatesLoop rest updates
     | Some upd \<Rightarrow> availableUpdatesLoop rest (updates @ [upd]))"

definition GetAvailableUpdates :: "Kubernetes \<Rightarrow> error + Update list" where
  "GetAvailableUpdates k =
    (case k clusterVersionGVK '''' ''version'' of
       Inl err \<Rightarrow>
         Inl (WrapError (''cannot retrieve OpenShift ClusterVersion resource: '' @ Error err) err)
     | Inr obj \<Rightarrow>
        (case asMap (index obj ''status'') of
           None \<Rightarrow> Inl (ErrorString ''unexpected ClusterVersion payload: missing status'')
         | Some status \<Rightarrow>
            (case asSlice (index status ''availableUpdates'') of
               None \<Rightarrow> Inr []
             | Some availableUpdatesIface \<Rightarrow> Inr (availableUpdatesLoop availableUpdatesIface []))))"

record Capabilities =
  Enabled :: "string list"
  Known :: "string list"

record UpdateHistory = Update +
  CompletionTime :: string
  StartedTime :: string
  State :: string
  Verified :: bool

fun convertInterfaceSliceToStringSlice :: "iface list \<Rightarrow> string list" where
  "convertInterfaceSliceToStringSlice [] = []"
| "convertInterfaceSliceToStringSlice (item # rest) =
    (case asString item of
       Some s \<Rightarrow> s # convertInterfaceSliceToStringSlice rest
     | None \<Rightarrow> convertInterfaceSliceToStringSlice rest)"

definition GetCapabilities :: "Kubernetes \<Rightarrow> error + Capabilities" where
  "GetCapabilities k =
    (case k clusterVersionGVK '''' ''version'' of
       Inl err \<Rightarrow>
         Inl (WrapError (''cannot retrieve OpenShift ClusterVersion resource: '' @ Error err) err)
     | Inr obj \<Rightarrow>
        (case asMap (index obj ''status'') of
           None \<Rightarrow> Inl (ErrorString ''unexpected ClusterVersion payload: missing status'')
         | Some status \<Rightarrow>
            (case asMap (index status ''capabilities'') of
               None \<Rightarrow> Inl (ErrorString ''capabilities not found in ClusterVersion status'')
             | Some capsStatus \<Rightarrow>
                (let caps = \<lparr>Enabled = [], Known = []\<rparr>;
                     caps = (case asSlice (index capsStatus ''enabledCapabilities'') of
                               Some enabled \<Rightarrow>
                                 caps\<lparr>Enabled := convertInterfaceSliceToStringSlice enabled\<rparr>
                             | None \<Rightarrow> caps);
                     caps = (case asSlice (index capsStatus ''knownCapabilities'') of
                               Some known \<Rightarrow>
                                 caps\<lparr>Known := convertInterfaceSliceToStringSlice known\<rparr>
                             | None \<Rightarrow> caps)
                 in Inr caps))))"

text \<open>
  One pass of the loop body of \<^verbatim>\<open>GetUpdateHistory\<close>; \<open>None\<close> is an entry the loop
  skips.
\<close>

definition historyOfEntry :: "iface \<Rightarrow> UpdateHistory option" where
  "historyOfEntry entry =
    (case asMap entry of
       None \<Rightarrow> None
     | Some hMap \<Rightarrow>
        (let uh = \<lparr>Version = '''', Image = '''', CompletionTime = '''', StartedTime = '''',
                    State = '''', Verified = False\<rparr>;
             uh = (case asString (index hMap ''version'') of
                     Some v \<Rightarrow> uh\<lparr>Version := v\<rparr> | None \<Rightarrow> uh);
             uh = (case asString (index hMap ''image'') of
                     Some img \<Rightarrow> uh\<lparr>Image := img\<rparr> | None \<Rightarrow> uh);
             uh = (case asString (index hMap ''completionTime'') of
                     Some ct \<Rightarrow> uh\<lparr>CompletionTime := ct\<rparr> | None \<Rightarrow> uh);
             uh = (case asString (index hMap ''startedTime'') of
                     Some st \<Rightarrow> uh\<lparr>StartedTime := st\<rparr> | None \<Rightarrow> uh);
             uh = (case asString (index hMap ''state'') of
                     Some state \<Rightarrow> uh\<lparr>State := state\<rparr> | None \<Rightarrow> uh);
             uh = (case asBool (index hMap ''verified'') of
                     Some verified \<Rightarrow> uh\<lparr>Verified := verified\<rparr> | None \<Rightarrow> uh)
         in if Version uh \<noteq> '''' then Some uh else None))"

fun updateHistoryLoop :: "iface list \<Rightarrow> UpdateHistory list \<Rightarrow> UpdateHistory list" where
  "updateHistoryLoop [] history = history"
| "updateHistoryLoop (entry # rest) history =
    (case historyOfEntry entry of
       None \<Rightarrow> updateHistoryLoop rest history
     | Some uh \<Rightarrow> updateHistoryLoop rest (history @ [uh]))"

definition GetUpdateHistory :: "Kubernetes \<Rightarrow> error + UpdateHistory list" where
  "GetUpdateHistory k =
    (case k clusterVersionGVK '''' ''version'' of
       Inl err \<Rightarrow>
         Inl (WrapError (''cannot retrieve OpenShift ClusterVersion resource: '' @ Error err) err)
     | Inr obj \<Rightarrow>
        (case asMap (index obj ''status'') of
           None \<Rightarrow> Inl (ErrorString ''unexpected ClusterVersion payload: missing status'')
         | Some status \<Rightarrow>
            (case asSlice (index status ''history'') of
               None \<Rightarrow> Inr []
             | Some historyIface \<Rightarrow> Inr (updateHistoryLoop historyIface []))))"

section \<open>Package kubernetes: the capability probe and the oc command\<close>

text \<open>
  \<^verbatim>\<open>metav1.ListOptions\<close>, the two fields the probe sets; both are \<^verbatim>\<open>int64\<close>, and
  \<^verbatim>\<open>TimeoutSeconds\<close> is a pointer.
\<close>

record ListOptions =
  Limit :: "64 word"
  TimeoutSeconds :: "64 word option"

text \<open>
  \<^verbatim>\<open>m.dynamicClient.Resource(gvr).List(ctx, opts)\<close> is a call into the client
  library: the dynamic client is the function from the resource and the options of a
  list request to the returned list or error.
\<close>

type_synonym 'l dynamicClient = "GroupVersionResource \<Rightarrow> ListOptions \<Rightarrow> error + 'l"

definition IsOpenShift :: "'l dynamicClient \<Rightarrow> bool" where
  "IsOpenShift dynamicClient =
    (let timeoutSeconds = 5 in
     case dynamicClient (GroupVersionResource ''project.openshift.io'' ''v1'' ''projects'')
            \<lparr>Limit = 1, TimeoutSeconds = Some timeoutSeconds\<rparr> of
       Inr _ \<Rightarrow> True
     | Inl err \<Rightarrow> False)"

text \<open>
  \<^verbatim>\<open>strings.TrimSpace\<close> removes the leading and the trailing white space, as
  \<^verbatim>\<open>unicode.IsSpace\<close> defines it. A Go string is its bytes in UTF-8, so the white
  space characters are listed by their encodings: tab, line feed, vertical tab, form
  feed, carriage return and space; U+0085 and U+00A0; U+1680; U+2000 to U+200A; U+2028,
  U+2029 and U+202F; U+205F; U+3000. Bytes that are not the encoding of one of them
  (other characters, and invalid UTF-8, which decodes to U+FFFD) stop the trimming.
\<close>

definition unicodeSpace :: "string list" where
  "unicodeSpace =
    [[CHR 0x09], [CHR 0x0A], [CHR 0x0B], [CHR 0x0C], [CHR 0x0D], [CHR 0x20],
     [CHR 0xC2, CHR 0x85], [CHR 0xC2, CHR 0xA0],
     [CHR 0xE1, CHR 0x9A, CHR 0x80],
     [CHR 0xE2, CHR 0x80, CHR 0x80], [CHR 0xE2, CHR 0x80, CHR 0x81],
     [CHR 0xE2, CHR 0x80, CHR 0x82], [CHR 0xE2, CHR 0x80, CHR 0x83],
     [CHR 0xE2, CHR 0x80, CHR 0x84], [CHR 0xE2, CHR 0x80, CHR 0x85],
     [CHR 0xE2, CHR 0x80, CHR 0x86], [CHR 0xE2, CHR 0x80, CHR 0x87],
     [CHR 0xE2, CHR 0x80, CHR 0x88], [CHR 0xE2, CHR 0x80, CHR 0x89],
     [CHR 0xE2, CHR 0x80, CHR 0x8A],
     [CHR 0xE2, CHR 0x80, CHR 0xA8], [CHR 0xE2, CHR 0x80, CHR 0xA9],
     [CHR 0xE2, CHR 0x80, CHR 0xAF],
     [CHR 0xE2, CHR 0x81, CHR 0x9F],
     [CHR 0xE3, CHR 0x80, CHR 0x80]]"

text \<open>
  The loop that drops white space from the front: while the string starts with one of
  the encodings, that encoding is removed. The encodings of distinct characters are
  never a prefix of one another, read forwards or backwards, so at most one applies.
\<close>

function trimLeftOf :: "string list \<Rightarrow> string \<Rightarrow> string" where
  "trimLeftOf encodings s =
    (case find (\<lambda>e. e \<noteq> [] \<and> take (length e) s = e) encodings of
       None \<Rightarrow> s
     | Some e \<Rightarrow> trimLeftOf encodings (drop (length e) s))"
  by pat_completeness auto
termination
proof (relation "measure (\<lambda>(encodings, s). length s)")
  show "wf (measure (\<lambda>(encodings, s). length s))"
    by simp
next
  fix encodings :: "string list" and s e :: string
  assume "find (\<lambda>e. e \<noteq> [] \<and> take (length e) s = e) encodings = Some e"
  then have "e \<noteq> []" and "take (length e) s = e"
    by (auto simp: find_Some_iff)
  then have "0 < length e"
    by (cases e) simp_all
  moreover from \<open>take (length e) s = e\<close> have "length e \<le> length s"
    by (metis length_take min.cobounded1)
  ultimately have "length (drop (length e) s) < length s"
    unfolding length_drop by arith
  then show "((encodings, drop (length e) s), (encodings, s))
      \<in> measure (\<lambda>(encodings, s). length s)"
    by simp
qed

text \<open>
  The front is trimmed first, then the back of what is left: a string ends with an
  encoding exactly when its reverse starts with the reversed encoding.
\<close>

definition strings_TrimSpace :: "string \<Rightarrow> string" where
  "strings_TrimSpace s =
    rev (trimLeftOf (map rev unicodeSpace) (rev (trimLeftOf unicodeSpace s)))"

text \<open>
  \<^verbatim>\<open>exec.CommandContext(ctx, "oc", args...).CombinedOutput()\<close> runs a process:
  \<open>CombinedOutput\<close> is the function from the program and its arguments to the output
  and the error (or nil) of the run.
\<close>

definition ExecuteOcCommand ::
  "(string \<Rightarrow> string list \<Rightarrow> string \<times> error option) \<Rightarrow> string list \<Rightarrow> string \<times> error option"
where
  "ExecuteOcCommand CombinedOutput args =
    (case CombinedOutput ''oc'' args of
       (output, Some err) \<Rightarrow> (strings_TrimSpace output, Some err)
     | (output, None) \<Rightarrow> (strings_TrimSpace output, None))"

section \<open>Package mcp: the OpenShift tool providers and their handlers\<close>

text \<open>
  A tool descriptor, with the fields these sources set: the name, the description, the
  declared parameters (name, type, description) and the annotations. The hints are
  \<^verbatim>\<open>*bool\<close>: \<open>None\<close> is the nil pointer.
\<close>

record Tool =
  Name :: string
  Description :: string
  Parameters :: "(string \<times> string \<times> string) list"
  Title :: string
  ReadOnlyHint :: "bool option"
  DestructiveHint :: "bool option"
  OpenWorldHint :: "bool option"

text \<open>
  The handler bound to a tool is a function value: one of the methods of the server
  below, or nil (\<open>None\<close>), as in the descriptors the tests build.
\<close>

datatype Handler =
    H_openShiftClusterVersion
  | H_openShiftAvailableUpdates
  | H_openShiftCapabilities
  | H_openShiftUpdateHistory
  | H_ocCliExec

record ServerTool =
  Tool :: Tool
  Handler :: "Handler option"

text \<open>
  \<^verbatim>\<open>s.k.IsOpenShift(context.Background())\<close>: the server reaches the probe through
  its manager, here the manager's dynamic client.
\<close>

definition initOpenShift :: "'l dynamicClient \<Rightarrow> ServerTool list" where
  "initOpenShift k =
    (if \<not> IsOpenShift k then []
     else
      [\<lparr>Tool = \<lparr>Name = ''cluster_version_get'',
                Description = ''Get the OpenShift cluster version (for example '' @ [CHR 0x27] @
                  ''4.15.9'' @ [CHR 0x27] @ '')'',
                Parameters = [],
                Title = ''OpenShift: Cluster Version'',
                ReadOnlyHint = Some True,
                DestructiveHint = Some False,
                OpenWorldHint = Some True\<rparr>,
        Handler = Some H_openShiftClusterVersion\<rparr>,
       \<lparr>Tool = \<lparr>Name = ''cluster_available_updates_list'',
                Description = ''List the OpenShift cluster available updates (version and image)'',
                Parameters = [],
                Title = ''OpenShift: Available Updates'',
                ReadOnlyHint = Some True,
                DestructiveHint = Some False,
                OpenWorldHint = Some True\<rparr>,
        Handler = Some H_openShiftAvailableUpdates\<rparr>,
       \<lparr>Tool = \<lparr>Name = ''cluster_capabilities_get'',
                Description = ''Get the OpenShift cluster capabilities (enabled or known)'',
                Parameters = [(''type'', ''string'',
                  ''Type of capabilities to retrieve ('' @ [CHR 0x27] @ ''enabled'' @ [CHR 0x27] @
                  '' or '' @ [CHR 0x27] @ ''known'' @ [CHR 0x27] @
                  ''). If not provided, both are returned'')],
                Title = ''OpenShift: Capabilities'',
                ReadOnlyHint = Some True,
                DestructiveHint = Some False,
                OpenWorldHint = Some True\<rparr>,
        Handler = Some H_openShiftCapabilities\<rparr>,
       \<lparr>Tool = \<lparr>Name = ''cluster_update_history_list'',
                Description = ''List the OpenShift cluster update history'',
                Parameters = [],
                Title = ''OpenShift: Update History'',
                ReadOnlyHint = Some True,
                DestructiveHint = Some False,
                OpenWorldHint = Some True\<rparr>,
        Handler = Some H_openShiftUpdateHistory\<rparr>])"

definition initOcCli :: "ServerTool list" where
  "initOcCli =
    [\<lparr>Tool = \<lparr>Name = ''oc_cli_exec'',
              Description = ''Execute an oc command'',
              Parameters = [(''command'', ''array'',
                ''Command and its arguments as a list of strings, e.g., ['' @ [CHR 0x22] @ ''get'' @
                [CHR 0x22] @ '', '' @ [CHR 0x22] @ ''pods'' @ [CHR 0x22] @ '']'')],
              Title = ''OpenShift: Execute OC Command'',
              ReadOnlyHint = Some False,
              DestructiveHint = Some True,
              OpenWorldHint = Some True\<rparr>,
      Handler = Some H_ocCliExec\<rparr>]"

text \<open>
  The handlers return \<^verbatim>\<open>(*mcp.CallToolResult, error)\<close>: the pair of the result and
  the transport-level error, \<open>None\<close> for nil. The constructors of results
  (\<^verbatim>\<open>NewTextResult(content, err)\<close>, \<^verbatim>\<open>modelcontext.ErrorToolResult(text)\<close>,
  \<^verbatim>\<open>modelcontext.TextToolResult(text)\<close>) and \<^verbatim>\<open>output.MarshalYaml\<close> are defined
  outside these sources: each handler takes them as arguments, so that what is proved
  of a handler holds for every such function. The handle \<open>derived\<close> is
  \<^verbatim>\<open>s.k.Derived(ctx)\<close>.
\<close>

datatype yamlValue =
    Y_Updates "Update list"
  | Y_Strings "string list"
  | Y_Capabilities Capabilities
  | Y_History "UpdateHistory list"

definition openShiftClusterVersion ::
  "(string \<Rightarrow> error option \<Rightarrow> 'r) \<Rightarrow> Kubernetes \<Rightarrow> 'r \<times> error option"
where
  "openShiftClusterVersion NewTextResult derived =
    (case GetClusterVersion derived of
       Inl err \<Rightarrow>
         (NewTextResult ''''
            (Some (ErrorString (''failed to get OpenShift cluster version: '' @ Error err))),
          None)
     | Inr version \<Rightarrow> (NewTextResult version None, None))"

definition openShiftAvailableUpdates ::
  "(string \<Rightarrow> error option \<Rightarrow> 'r) \<Rightarrow> (yamlValue \<Rightarrow> error + string) \<Rightarrow> Kubernetes
    \<Rightarrow> 'r \<times> error option"
where
  "openShiftAvailableUpdates NewTextResult MarshalYaml derived =
    (case GetAvailableUpdates derived of
       Inl err \<Rightarrow>
         (NewTextResult ''''
            (Some (ErrorString (''failed to get OpenShift available updates: '' @ Error err))),
          None)
     | Inr updates \<Rightarrow>
        (case MarshalYaml (Y_Updates updates) of
           Inl err \<Rightarrow>
             (NewTextResult ''''
                (Some (ErrorString (''failed to marshal available updates: '' @ Error err))),
              None)
         | Inr yamlOut \<Rightarrow>
             (NewTextResult (''Available updates (YAML format):'' @ [CHR 0x0A] @ yamlOut) None,
              None)))"

text \<open>
  \<open>arguments\<close> is \<^verbatim>\<open>ctr.GetArguments()\<close>. A value of \<^verbatim>\<open>"type"\<close> that is not a
  string leaves \<^verbatim>\<open>capTypeArg\<close> at the zero value of the failed assertion, the empty
  string.
\<close>

definition openShiftCapabilities ::
  "(string \<Rightarrow> error option \<Rightarrow> 'r) \<Rightarrow> (yamlValue \<Rightarrow> error + string) \<Rightarrow> Kubernetes \<Rightarrow> object
    \<Rightarrow> 'r \<times> error option"
where
  "openShiftCapabilities NewTextResult MarshalYaml derived arguments =
    (case GetCapabilities derived of
       Inl err \<Rightarrow>
         (NewTextResult ''''
            (Some (ErrorString (''failed to get OpenShift capabilities: '' @ Error err))),
          None)
     | Inr caps \<Rightarrow>
        (let capTypeArg = '''';
             v = index arguments ''type'';
             capTypeArg = (if v \<noteq> INil
                           then (case asString v of Some s \<Rightarrow> s | None \<Rightarrow> '''')
                           else capTypeArg);
             out = (if capTypeArg = ''enabled'' then Y_Strings (Enabled caps)
                    else if capTypeArg = ''known'' then Y_Strings (Known caps)
                    else Y_Capabilities caps)
         in case MarshalYaml out of
              Inl err \<Rightarrow>
                (NewTextResult ''''
                   (Some (ErrorString (''failed to marshal capabilities: '' @ Error err))),
                 None)
            | Inr yamlOut \<Rightarrow>
                (NewTextResult (''Cluster capabilities (YAML format):'' @ [CHR 0x0A] @ yamlOut) None,
                 None)))"

definition openShiftUpdateHistory ::
  "(string \<Rightarrow> error option \<Rightarrow> 'r) \<Rightarrow> (yamlValue \<Rightarrow> error + string) \<Rightarrow> Kubernetes
    \<Rightarrow> 'r \<times> error option"
where
  "openShiftUpdateHistory NewTextResult MarshalYaml derived =
    (case GetUpdateHistory derived of
       Inl err \<Rightarrow>
         (NewTextResult ''''
            (Some (ErrorString (''failed to get OpenShift update history: '' @ Error err))),
          None)
     | Inr history \<Rightarrow>
        (case MarshalYaml (Y_History history) of
           Inl err \<Rightarrow>
             (NewTextResult ''''
                (Some (ErrorString (''failed to marshal update history: '' @ Error err))),
              None)
         | Inr yamlOut \<Rightarrow>
             (NewTextResult (''Cluster update history (YAML format):'' @ [CHR 0x0A] @ yamlOut) None,
              None)))"

text \<open>
  \<open>Bind\<close> is \<^verbatim>\<open>ctr.Parameters.Bind\<close> of the request at hand: from the parameter's
  name to the bound list of strings or the error. \<open>CombinedOutput\<close> is the process
  runner behind \<^verbatim>\<open>s.kube.ExecuteOcCommand\<close>.
\<close>

definition ocCliExec ::
  "(string \<Rightarrow> 'r) \<Rightarrow> (string \<Rightarrow> 'r) \<Rightarrow> (string \<Rightarrow> error + string list)
    \<Rightarrow> (string \<Rightarrow> string list \<Rightarrow> string \<times> error option) \<Rightarrow> 'r \<times> error option"
where
  "ocCliExec ErrorToolResult TextToolResult Bind CombinedOutput =
    (case Bind ''command'' of
       Inl err \<Rightarrow> (ErrorToolResult (Error err), None)
     | Inr args \<Rightarrow>
        (case ExecuteOcCommand CombinedOutput args of
           (output, Some err) \<Rightarrow> (ErrorToolResult (output @ [CHR 0x0A] @ Error err), None)
         | (output, None) \<Rightarrow> (TextToolResult output, None)))"

section \<open>Package cmd: options, flags and the start of the server\<close>

text \<open>
  \<^verbatim>\<open>config.StaticConfig\<close> is declared outside these sources; these are the fields
  the sources read and write. Go's \<^verbatim>\<open>int\<close> is a 64-bit word, compared as a signed
  number. Several structs share field names; a field is written with its record's
  name where two of them meet (\<open>StaticConfig.ListOutput\<close>,
  \<open>MCPServerOptions.ListOutput\<close>).
\<close>

record StaticConfig =
  LogLevel :: "64 word"
  SSEPort :: "64 word"
  HTTPPort :: "64 word"
  SSEBaseURL :: string
  KubeConfig :: string
  ListOutput :: string
  ReadOnly :: bool
  DisableDestructive :: bool
  EnabledTools :: "string list"
  DisabledTools :: "string list"

text \<open>
  \<^verbatim>\<open>MCPServerOptions\<close>, without its IO streams. \<open>StaticConfig\<close> is a pointer in the
  source; the functions that write through it return the options with the new value.
\<close>

record MCPServerOptions =
  Version :: bool
  LogLevel :: "64 word"
  SSEPort :: "64 word"
  HttpPort :: "64 word"
  SSEBaseUrl :: string
  Kubeconfig :: string
  Profile :: string
  ListOutput :: string
  ReadOnly :: bool
  DisableDestructive :: bool
  ConfigPath :: string
  StaticConfig :: StaticConfig

text \<open>
  A cobra command, as far as \<^verbatim>\<open>loadFlags\<close> uses it: \<^verbatim>\<open>cmd.Flag(name)\<close> is the
  flag of that name, or nil (\<open>None\<close>) when the command has no such flag.
\<close>

record Flag =
  Changed :: bool

type_synonym Command = "string \<Rightarrow> Flag option"

text \<open>
  \<^verbatim>\<open>loadFlags\<close>. Reading \<^verbatim>\<open>.Changed\<close> of a nil flag panics: the result is
  \<open>None\<close> then, and the options with the updated static configuration otherwise.
\<close>

definition loadFlags :: "Command \<Rightarrow> MCPServerOptions \<Rightarrow> MCPServerOptions option" where
  "loadFlags cmd m = do {
     let sc = MCPServerOptions.StaticConfig m;
     f \<leftarrow> cmd ''log-level'';
     let sc = (if Changed f
               then sc\<lparr>StaticConfig.LogLevel := MCPServerOptions.LogLevel m\<rparr> else sc);
     f \<leftarrow> cmd ''sse-port'';
     let sc = (if Changed f
               then sc\<lparr>StaticConfig.SSEPort := MCPServerOptions.SSEPort m\<rparr> else sc);
     f \<leftarrow> cmd ''http-port'';
     let sc = (if Changed f
               then sc\<lparr>StaticConfig.HTTPPort := MCPServerOptions.HttpPort m\<rparr> else sc);
     f \<leftarrow> cmd ''sse-base-url'';
     let sc = (if Changed f
               then sc\<lparr>StaticConfig.SSEBaseURL := MCPServerOptions.SSEBaseUrl m\<rparr> else sc);
     f \<leftarrow> cmd ''kubeconfig'';
     let sc = (if Changed f
               then sc\<lparr>StaticConfig.KubeConfig := MCPServerOptions.Kubeconfig m\<rparr> else sc);
     f \<leftarrow> cmd ''list-output'';
     let sc = (if Changed f \<or> StaticConfig.ListOutput sc = ''''
               then sc\<lparr>StaticConfig.ListOutput := MCPServerOptions.ListOutput m\<rparr> else sc);
     f \<leftarrow> cmd ''read-only'';
     let sc = (if Changed f
               then sc\<lparr>StaticConfig.ReadOnly := MCPServerOptions.ReadOnly m\<rparr> else sc);
     f \<leftarrow> cmd ''disable-destructive'';
     let sc = (if Changed f
               then sc\<lparr>StaticConfig.DisableDestructive := MCPServerOptions.DisableDestructive m\<rparr>
               else sc);
     Some (m\<lparr>MCPServerOptions.StaticConfig := sc\<rparr>)
   }"

text \<open>
  \<^verbatim>\<open>mcp.Configuration\<close>: the profile, the list output and the static configuration,
  as \<^verbatim>\<open>Run\<close> builds it. The types of profiles and outputs are declared outside
  these sources.
\<close>

record ('p, 'o) Configuration =
  Profile :: 'p
  ListOutput :: 'o
  StaticConfig :: StaticConfig

text \<open>\<^verbatim>\<open>strings.Join(elems, sep)\<close>.\<close>

fun strings_Join :: "string list \<Rightarrow> string \<Rightarrow> string" where
  "strings_Join [] sep = ''''"
| "strings_Join [x] sep = x"
| "strings_Join (x # y # ys) sep = x @ sep @ strings_Join (y # ys) sep"

text \<open>
  What \<^verbatim>\<open>Run\<close> does besides returning: log lines, the version line written to the
  output stream, and the calls on the MCP server and its transports, in the order
  they happen. A formatted text with a \<^verbatim>\<open>%d\<close> or \<^verbatim>\<open>%t\<close> is kept as its format
  and arguments.
\<close>

datatype arg = A_String string | A_Int "64 word" | A_Bool bool

datatype ('p, 'o) event =
    Klog nat string "arg list"
  | Fprintf_Out string "arg list"
  | E_NewServer "('p, 'o) Configuration"
  | E_Close
  | E_ServeSse string
  | E_SseStart string "arg list"
  | E_SseShutdown
  | E_ServeHTTP
  | E_HttpStart string "arg list"
  | E_ServeStdio

text \<open>
  The collaborators of \<^verbatim>\<open>Run\<close> that are defined outside these sources: the tables
  of profiles and outputs, the version string, and the outcome (the error or nil) of
  constructing the server and of running each transport.
\<close>

record ('p, 'o) Collaborators =
  mcp_ProfileFromString :: "string \<Rightarrow> 'p option"
  mcp_ProfileNames :: "string list"
  profile_GetName :: "'p \<Rightarrow> string"
  output_FromString :: "string \<Rightarrow> 'o option"
  output_Names :: "string list"
  output_GetName :: "'o \<Rightarrow> string"
  version_Version :: string
  mcp_NewServer :: "('p, 'o) Configuration \<Rightarrow> error option"
  sseServer_Start :: "error option"
  httpServer_Start :: "error option"
  mcpServer_ServeStdio :: "error option"

text \<open>
  \<^verbatim>\<open>Run\<close>: the returned error (or nil) and the events. The deferred calls
  (\<^verbatim>\<open>mcpServer.Close()\<close>, then the shutdown of the SSE server) run at the return, last
  deferred first.
\<close>

definition Run ::
  "('p, 'o) Collaborators \<Rightarrow> MCPServerOptions \<Rightarrow> error option \<times> ('p, 'o) event list"
where
  "Run w m =
    (case mcp_ProfileFromString w (MCPServerOptions.Profile m) of
       None \<Rightarrow>
         (Some (ErrorString (''Invalid profile name: '' @ MCPServerOptions.Profile m @
            '', valid names are: '' @ strings_Join (mcp_ProfileNames w) '', '' @ [CHR 0x0A])), [])
     | Some profile \<Rightarrow>
        (case output_FromString w (StaticConfig.ListOutput (MCPServerOptions.StaticConfig m)) of
           None \<Rightarrow>
             (Some (ErrorString (''Invalid output name: '' @
                StaticConfig.ListOutput (MCPServerOptions.StaticConfig m) @
                '', valid names are: '' @ strings_Join (output_Names w) '', '' @ [CHR 0x0A])), [])
         | Some listOutput \<Rightarrow>
            (let sc = MCPServerOptions.StaticConfig m;
                 started =
                   [Klog 1 ''Starting kubernetes-mcp-server'' [],
                    Klog 1 '' - Config: %s'' [A_String (ConfigPath m)],
                    Klog 1 '' - Profile: %s'' [A_String (profile_GetName w profile)],
                    Klog 1 '' - ListOutput: %s'' [A_String (output_GetName w listOutput)],
                    Klog 1 '' - Read-only mode: %t'' [A_Bool (StaticConfig.ReadOnly sc)],
                    Klog 1 '' - Disable destructive tools: %t''
                      [A_Bool (StaticConfig.DisableDestructive sc)]]
             in if Version m then
                  (None, started @ [Fprintf_Out (''%s'' @ [CHR 0x0A]) [A_String (version_Version w)]])
                else
                  (let cfg = \<lparr>Profile = profile, ListOutput = listOutput, StaticConfig = sc\<rparr>;
                       created = started @ [E_NewServer cfg]
                   in case mcp_NewServer w cfg of
                        Some err \<Rightarrow>
                          (Some (WrapError (''Failed to initialize MCP server: '' @ Error err @
                             [CHR 0x0A]) err), created)
                      | None \<Rightarrow>
                         (let sse = (0 < sint (StaticConfig.SSEPort sc));
                              sseEvents =
                                (if sse then
                                   [E_ServeSse (SSEBaseURL sc),
                                    Klog 0 ''SSE server starting on port %d and path /sse''
                                      [A_Int (StaticConfig.SSEPort sc)],
                                    E_SseStart '':%d'' [A_Int (StaticConfig.SSEPort sc)]]
                                 else []);
                              deferred = (if sse then [E_SseShutdown, E_Close] else [E_Close])
                          in case (if sse then sseServer_Start w else None) of
                               Some err \<Rightarrow>
                                 (Some (WrapError (''failed to start SSE server: '' @ Error err @
                                    [CHR 0x0A]) err),
                                  created @ sseEvents @ deferred)
                             | None \<Rightarrow>
                                (let http = (0 < sint (HTTPPort sc));
                                     httpEvents =
                                       (if http then
                                          [E_ServeHTTP,
                                           Klog 0
                                             ''Streaming HTTP server starting on port %d and path /mcp''
                                             [A_Int (HTTPPort sc)],
                                           E_HttpStart '':%d'' [A_Int (HTTPPort sc)]]
                                        else [])
                                 in case (if http then httpServer_Start w else None) of
                                      Some err \<Rightarrow>
                                        (Some (WrapError
                                           (''failed to start streaming HTTP server: '' @
                                            Error err @ [CHR 0x0A]) err),
                                         created @ sseEvents @ httpEvents @ deferred)
                                    | None \<Rightarrow>
                                       (case mcpServer_ServeStdio w of
                                          Some err \<Rightarrow>
                                            (if \<not> errors_Is_Canceled err then Some err else None,
                                             created @ sseEvents @ httpEvents @ [E_ServeStdio] @
                                             deferred)
                                        | None \<Rightarrow>
                                            (None,
                                             created @ sseEvents @ httpEvents @ [E_ServeStdio] @
                                             deferred))))))))"

section \<open>The visibility filter\<close>

text \<open>
  Modelled from the spec: \<^verbatim>\<open>Configuration.isToolApplicable\<close>, the visibility filter.
  Its code is not part of these sources (its tests are). The definition follows the
  five rules of the specification in their order; the annotations read with the
  defaults of the data model (read-only: false when absent; destructive: true unless
  explicitly marked non-destructive), and rule 4 leaves a tool whose read-only
  annotation is true alone, as the edge case of the specification and the tests of
  the sources say.
\<close>

definition readOnlyAnnotation :: "ServerTool \<Rightarrow> bool" where
  "readOnlyAnnotation tool = (case ReadOnlyHint (Tool tool) of None \<Rightarrow> False | Some b \<Rightarrow> b)"

definition destructiveAnnotation :: "ServerTool \<Rightarrow> bool" where
  "destructiveAnnotation tool =
    (case DestructiveHint (Tool tool) of None \<Rightarrow> True | Some b \<Rightarrow> b)"

definition isToolApplicable :: "('p, 'o) Configuration \<Rightarrow> ServerTool \<Rightarrow> bool" where
  "isToolApplicable c tool =
    (let sc = Configuration.StaticConfig c in
     if EnabledTools sc \<noteq> [] then Name (Tool tool) \<in> set (EnabledTools sc)
     else if Name (Tool tool) \<in> set (DisabledTools sc) then False
     else if StaticConfig.ReadOnly sc \<and> \<not> readOnlyAnnotation tool then False
     else if StaticConfig.DisableDestructive sc \<and> destructiveAnnotation tool
             \<and> \<not> readOnlyAnnotation tool then False
     else True)"

section \<open>Paths into a payload\<close>

text \<open>
  The vocabulary in which the results of the readers are stated, independent of their
  code: \<open>field x k\<close> is the member \<open>k\<close> of \<open>x\<close> when \<open>x\<close> is a map that has it and
  nil otherwise, \<open>firstElem x\<close> is element 0 of \<open>x\<close> when \<open>x\<close> is a non-empty list and
  nil otherwise, \<open>nonEmptyString x\<close> is the text of \<open>x\<close> when \<open>x\<close> is a string other
  than the empty one, and \<open>stringOrEmpty x\<close> is the text of \<open>x\<close> when \<open>x\<close> is a string
  and the empty string otherwise.
\<close>

definition field :: "iface \<Rightarrow> string \<Rightarrow> iface" where
  "field x k = (case x of IMap m \<Rightarrow> index m k | _ \<Rightarrow> INil)"

definition firstElem :: "iface \<Rightarrow> iface" where
  "firstElem x = (case x of ISlice (e # _) \<Rightarrow> e | _ \<Rightarrow> INil)"

definition nonEmptyString :: "iface \<Rightarrow> string option" where
  "nonEmptyString x = (case x of IString s \<Rightarrow> if s = [] then None else Some s | _ \<Rightarrow> None)"

definition stringOrEmpty :: "iface \<Rightarrow> string" where
  "stringOrEmpty x = (case x of IString s \<Rightarrow> s | _ \<Rightarrow> [])"

text \<open>
  An entry of \<^verbatim>\<open>status.availableUpdates\<close> that is a map with a non-empty version
  string, and the update it stands for.
\<close>

definition hasVersion_spec :: "iface \<Rightarrow> bool" where
  "hasVersion_spec e = (nonEmptyString (field e ''version'') \<noteq> None)"

definition updateOf_spec :: "iface \<Rightarrow> Update" where
  "updateOf_spec e =
    \<lparr>Update.Version = stringOrEmpty (field e ''version''),
     Image = stringOrEmpty (field e ''image'')\<rparr>"

section \<open>Sample inputs\<close>

text \<open>
  A table of profiles and outputs with the names the command line documents, a server
  that starts without error, and the options of a plain start: the inputs at which the
  theorems on \<open>Run\<close> are instantiated.
\<close>

definition sampleCollaborators :: "(string, string) Collaborators" where
  "sampleCollaborators =
    \<lparr>mcp_ProfileFromString = (\<lambda>name. if name = ''full'' then Some name else None),
     mcp_ProfileNames = [''full''],
     profile_GetName = (\<lambda>profile. profile),
     output_FromString =
       (\<lambda>name. if name = ''yaml'' \<or> name = ''table'' then Some name else None),
     output_Names = [''yaml'', ''table''],
     output_GetName = (\<lambda>output. output),
     version_Version = ''0.0.0'',
     mcp_NewServer = (\<lambda>cfg. None),
     sseServer_Start = None,
     httpServer_Start = None,
     mcpServer_ServeStdio = None\<rparr>"

text \<open>The zero value \<^verbatim>\<open>config.StaticConfig{}\<close>, from which the tests start.\<close>

definition zeroStaticConfig :: StaticConfig where
  "zeroStaticConfig =
    \<lparr>StaticConfig.LogLevel = 0, StaticConfig.SSEPort = 0, HTTPPort = 0, SSEBaseURL = '''',
     KubeConfig = '''', StaticConfig.ListOutput = '''', StaticConfig.ReadOnly = False,
     StaticConfig.DisableDestructive = False, EnabledTools = [], DisabledTools = []\<rparr>"

definition sampleStaticConfig :: StaticConfig where
  "sampleStaticConfig = zeroStaticConfig\<lparr>StaticConfig.ListOutput := ''table''\<rparr>"

text \<open>
  The inputs of the tests of the visibility filter:
  \<^verbatim>\<open>Configuration{StaticConfig: sc}\<close> and
  \<^verbatim>\<open>server.ServerTool{Tool: mcp.Tool{Name, Annotations{ReadOnlyHint, DestructiveHint}}}\<close>,
  every other field at its zero value.
\<close>

definition testConfiguration :: "StaticConfig \<Rightarrow> (unit, unit) Configuration" where
  "testConfiguration sc =
    \<lparr>Configuration.Profile = (), Configuration.ListOutput = (),
     Configuration.StaticConfig = sc\<rparr>"

definition testTool :: "string \<Rightarrow> bool option \<Rightarrow> bool option \<Rightarrow> ServerTool" where
  "testTool name readOnlyHint destructiveHint =
    \<lparr>Tool = \<lparr>Name = name, Description = '''', Parameters = [], Title = '''',
              ReadOnlyHint = readOnlyHint, DestructiveHint = destructiveHint,
              OpenWorldHint = None\<rparr>,
     Handler = None\<rparr>"

definition sampleOptions :: MCPServerOptions where
  "sampleOptions =
    \<lparr>MCPServerOptions.Version = False, MCPServerOptions.LogLevel = 0,
     MCPServerOptions.SSEPort = 0, HttpPort = 0, SSEBaseUrl = '''', Kubeconfig = '''',
     MCPServerOptions.Profile = ''full'', MCPServerOptions.ListOutput = ''table'',
     MCPServerOptions.ReadOnly = False, MCPServerOptions.DisableDestructive = False,
     ConfigPath = '''', MCPServerOptions.StaticConfig = sampleStaticConfig\<rparr>"

section \<open>Trimming white space\<close>

text \<open>
  \<open>strings_TrimSpace\<close> at work: white space of one, two and three bytes goes from both
  ends and stays in the middle; a lone lead byte is not white space.
\<close>

lemma strings_TrimSpace_unicode:
  "strings_TrimSpace
     ([CHR 0xC2, CHR 0xA0, CHR 0x20] @ ''get pods'' @ [CHR 0x0A, CHR 0xE2, CHR 0x80, CHR 0xA8])
     = ''get pods''"
  by code_simp

lemma strings_TrimSpace_invalid:
  "strings_TrimSpace ([CHR 0xC2] @ ''ok'' @ [CHR 0x0D, CHR 0x0A]) = [CHR 0xC2] @ ''ok''"
  by code_simp

lemma strings_TrimSpace_all_space:
  "strings_TrimSpace ([CHR 0x20, CHR 0xE3, CHR 0x80, CHR 0x80, CHR 0x09]) = ''''"
  by code_simp

section \<open>Results of the ClusterVersion readers\<close>

lemma nonEmptyString_field:
  "nonEmptyString (field x k) =
    (case asMap x of
       None \<Rightarrow> None
     | Some m \<Rightarrow>
        (case asString (index m k) of
           None \<Rightarrow> None
         | Some v \<Rightarrow> if v \<noteq> [] then Some v else None))"
proof (cases x)
  case (IMap m)
  then show ?thesis
    by (cases "index m k") (simp_all add: field_def nonEmptyString_def)
qed (simp_all add: field_def nonEmptyString_def)

lemma firstElem_asSlice:
  "firstElem x =
    (case asSlice x of
       None \<Rightarrow> INil
     | Some history \<Rightarrow> if length history > 0 then history ! 0 else INil)"
proof (cases x)
  case (ISlice xs)
  then show ?thesis
    by (cases xs) (simp_all add: firstElem_def)
qed (simp_all add: firstElem_def)

lemma field_IMap: "field (IMap m) k = index m k"
  by (simp add: field_def)

lemma history_block:
  "(case asSlice h of
      None \<Rightarrow> None
    | Some history \<Rightarrow>
       (if length history > 0 then
          (case asMap (history ! 0) of
             None \<Rightarrow> None
           | Some entry \<Rightarrow>
              (case asString (index entry ''version'') of
                 None \<Rightarrow> None
               | Some v \<Rightarrow> if v \<noteq> [] then Some v else None))
        else None))
   = nonEmptyString (field (firstElem h) ''version'')"
proof (cases "asSlice h")
  case None
  then show ?thesis
    by (simp add: firstElem_asSlice nonEmptyString_field)
next
  case (Some history)
  then show ?thesis
    by (cases "length history > 0") (simp_all add: firstElem_asSlice nonEmptyString_field)
qed

lemma GetClusterVersion_status:
  assumes "k clusterVersionGVK '''' ''version'' = Inr obj"
    and "index obj ''status'' = IMap status"
  shows "GetClusterVersion k =
        (case nonEmptyString (field (index status ''desired'') ''version'') of
           Some v \<Rightarrow> Inr v
         | None \<Rightarrow>
            (case nonEmptyString (field (firstElem (index status ''history'')) ''version'') of
               Some v \<Rightarrow> Inr v
             | None \<Rightarrow> Inl (ErrorString ''version field not found in ClusterVersion status'')))"
  unfolding GetClusterVersion_def history_block
  by (simp add: assms nonEmptyString_field [of "index status ''desired''"])

text \<open>
  C8. For a fetched ClusterVersion object whose payload has a status map,
  \<open>GetClusterVersion\<close> returns \<open>status.desired.version\<close> when that is a non-empty
  string; otherwise \<open>status.history[0].version\<close> when the history is a non-empty list
  and that is a non-empty string; otherwise an error. It returns an error when the
  status map is missing and when the fetch fails.
\<close>

theorem GetClusterVersion_result:
  "(\<forall>obj status.
      k clusterVersionGVK '''' ''version'' = Inr obj \<longrightarrow> index obj ''status'' = IMap status \<longrightarrow>
      GetClusterVersion k =
        (case nonEmptyString (field (field (IMap status) ''desired'') ''version'') of
           Some v \<Rightarrow> Inr v
         | None \<Rightarrow>
            (case nonEmptyString
                    (field (firstElem (field (IMap status) ''history'')) ''version'') of
               Some v \<Rightarrow> Inr v
             | None \<Rightarrow> Inl (ErrorString ''version field not found in ClusterVersion status''))))
   \<and> (\<forall>obj. k clusterVersionGVK '''' ''version'' = Inr obj \<longrightarrow>
          asMap (index obj ''status'') = None \<longrightarrow> isl (GetClusterVersion k))
   \<and> (\<forall>e. k clusterVersionGVK '''' ''version'' = Inl e \<longrightarrow> isl (GetClusterVersion k))"
proof (intro conjI allI impI)
  fix obj status
  assume "k clusterVersionGVK '''' ''version'' = Inr obj" "index obj ''status'' = IMap status"
  then show "GetClusterVersion k =
        (case nonEmptyString (field (field (IMap status) ''desired'') ''version'') of
           Some v \<Rightarrow> Inr v
         | None \<Rightarrow>
            (case nonEmptyString
                    (field (firstElem (field (IMap status) ''history'')) ''version'') of
               Some v \<Rightarrow> Inr v
             | None \<Rightarrow> Inl (ErrorString ''version field not found in ClusterVersion status'')))"
    by (simp only: field_IMap GetClusterVersion_status)
next
  fix obj
  assume "k clusterVersionGVK '''' ''version'' = Inr obj" "asMap (index obj ''status'') = None"
  then show "isl (GetClusterVersion k)"
    by (simp add: GetClusterVersion_def)
next
  fix e
  assume "k clusterVersionGVK '''' ''version'' = Inl e"
  then show "isl (GetClusterVersion k)"
    by (simp add: GetClusterVersion_def)
qed

theorem GetClusterVersion_result_witness:
  "GetClusterVersion
     (\<lambda>gvk namespace name.
        Inr [(''status'', IMap [(''desired'', IMap [(''version'', IString ''4.15.9'')])])])
     = Inr ''4.15.9''
   \<and> GetClusterVersion
       (\<lambda>gvk namespace name.
          Inr [(''status'', IMap [(''desired'', IMap [(''version'', IString '''')]),
                                 (''history'', ISlice [IMap [(''version'', IString ''4.14.1'')]])])])
     = Inr ''4.14.1''
   \<and> GetClusterVersion (\<lambda>gvk namespace name. Inr [(''status'', IMap [(''history'', ISlice [])])])
     = Inl (ErrorString ''version field not found in ClusterVersion status'')
   \<and> isl (GetClusterVersion (\<lambda>gvk namespace name. Inr [(''status'', IString ''ready'')]))
   \<and> isl (GetClusterVersion (\<lambda>gvk namespace name. Inl (ErrorString ''not found'')))"
proof (intro conjI)
  let ?s1 = "[(''desired'', IMap [(''version'', IString ''4.15.9'')])]"
  let ?k1 = "(\<lambda>gvk namespace name. Inr [(''status'', IMap ?s1)]) :: Kubernetes"
  show "GetClusterVersion ?k1 = Inr ''4.15.9''"
    using GetClusterVersion_result [of ?k1, THEN conjunct1, rule_format,
        of "[(''status'', IMap ?s1)]" ?s1]
    by (simp add: index_def field_def nonEmptyString_def)
next
  let ?s2 = "[(''desired'', IMap [(''version'', IString '''')]),
              (''history'', ISlice [IMap [(''version'', IString ''4.14.1'')]])]"
  let ?k2 = "(\<lambda>gvk namespace name. Inr [(''status'', IMap ?s2)]) :: Kubernetes"
  show "GetClusterVersion ?k2 = Inr ''4.14.1''"
    using GetClusterVersion_result [of ?k2, THEN conjunct1, rule_format,
        of "[(''status'', IMap ?s2)]" ?s2]
    by (simp add: index_def field_def firstElem_def nonEmptyString_def)
next
  let ?s3 = "[(''history'', ISlice [])]"
  let ?k3 = "(\<lambda>gvk namespace name. Inr [(''status'', IMap ?s3)]) :: Kubernetes"
  show "GetClusterVersion ?k3 =
      Inl (ErrorString ''version field not found in ClusterVersion status'')"
    using GetClusterVersion_result [of ?k3, THEN conjunct1, rule_format,
        of "[(''status'', IMap ?s3)]" ?s3]
    by (simp add: index_def field_def firstElem_def nonEmptyString_def)
next
  let ?k4 = "(\<lambda>gvk namespace name. Inr [(''status'', IString ''ready'')]) :: Kubernetes"
  show "isl (GetClusterVersion ?k4)"
    using GetClusterVersion_result [of ?k4, THEN conjunct2, THEN conjunct1, rule_format,
        of "[(''status'', IString ''ready'')]"]
    by (simp add: index_def)
next
  let ?k5 = "(\<lambda>gvk namespace name. Inl (ErrorString ''not found'')) :: Kubernetes"
  show "isl (GetClusterVersion ?k5)"
    using GetClusterVersion_result [of ?k5, THEN conjunct2, THEN conjunct2, rule_format,
        of "ErrorString ''not found''"]
    by simp
qed

lemma updateOfEntry_spec:
  "updateOfEntry e = (if hasVersion_spec e then Some (updateOf_spec e) else None)"
proof (cases e)
  case (IMap m)
  then show ?thesis
    by (cases "index m ''version''"; cases "index m ''image''")
      (simp_all add: updateOfEntry_def hasVersion_spec_def updateOf_spec_def field_def
        nonEmptyString_def stringOrEmpty_def)
qed (simp_all add: updateOfEntry_def hasVersion_spec_def updateOf_spec_def field_def
        nonEmptyString_def stringOrEmpty_def)

lemma availableUpdatesLoop_spec:
  "availableUpdatesLoop es acc = acc @ map updateOf_spec (filter hasVersion_spec es)"
  by (induction es arbitrary: acc) (simp_all add: updateOfEntry_spec)

lemma GetAvailableUpdates_status:
  assumes "k clusterVersionGVK '''' ''version'' = Inr obj"
    and "index obj ''status'' = IMap status"
  shows "GetAvailableUpdates k =
          Inr (case index status ''availableUpdates'' of
                 ISlice entries \<Rightarrow> map updateOf_spec (filter hasVersion_spec entries)
               | _ \<Rightarrow> [])"
  by (cases "index status ''availableUpdates''")
    (simp_all add: GetAvailableUpdates_def assms availableUpdatesLoop_spec)

lemma GetAvailableUpdates_isl:
  "isl (GetAvailableUpdates k) \<longleftrightarrow>
     (isl (k clusterVersionGVK '''' ''version'')
      \<or> (\<exists>obj. k clusterVersionGVK '''' ''version'' = Inr obj
                \<and> asMap (index obj ''status'') = None))"
proof (cases "k clusterVersionGVK '''' ''version''")
  case (Inl e)
  then show ?thesis by (simp add: GetAvailableUpdates_def)
next
  case (Inr obj)
  show ?thesis
  proof (cases "asMap (index obj ''status'')")
    case None
    with Inr show ?thesis by (simp add: GetAvailableUpdates_def)
  next
    case (Some status)
    with Inr show ?thesis
      by (cases "asSlice (index status ''availableUpdates'')")
        (simp_all add: GetAvailableUpdates_def)
  qed
qed

text \<open>
  C9. \<open>GetAvailableUpdates\<close> returns an error exactly when the fetch fails or the
  payload has no status map. With a status map, it returns the empty list when
  \<open>status.availableUpdates\<close> is absent or not a list, and otherwise the updates of the
  entries that are maps with a non-empty version string, in their order.
\<close>

theorem GetAvailableUpdates_result:
  "(isl (GetAvailableUpdates k) \<longleftrightarrow>
     (isl (k clusterVersionGVK '''' ''version'')
      \<or> (\<exists>obj. k clusterVersionGVK '''' ''version'' = Inr obj
                \<and> asMap (index obj ''status'') = None)))
   \<and> (\<forall>obj status.
        k clusterVersionGVK '''' ''version'' = Inr obj \<longrightarrow> index obj ''status'' = IMap status \<longrightarrow>
        GetAvailableUpdates k =
          Inr (case field (IMap status) ''availableUpdates'' of
                 ISlice entries \<Rightarrow> map updateOf_spec (filter hasVersion_spec entries)
               | _ \<Rightarrow> []))"
  using GetAvailableUpdates_isl [of k] GetAvailableUpdates_status [of k]
  by (simp only: field_IMap) blast

theorem GetAvailableUpdates_result_witness:
  "GetAvailableUpdates
     (\<lambda>gvk namespace name.
        Inr [(''status'', IMap [(''availableUpdates'',
               ISlice [IMap [(''version'', IString ''4.15.10''), (''image'', IString ''quay.io/a'')],
                       IString ''malformed'',
                       IMap [(''image'', IString ''quay.io/b'')],
                       IMap [(''version'', IString ''4.16.0'')]])])])
     = Inr [\<lparr>Update.Version = ''4.15.10'', Image = ''quay.io/a''\<rparr>,
            \<lparr>Update.Version = ''4.16.0'', Image = ''''\<rparr>]
   \<and> GetAvailableUpdates (\<lambda>gvk namespace name. Inr [(''status'', IMap [])]) = Inr []
   \<and> isl (GetAvailableUpdates (\<lambda>gvk namespace name. Inl (ErrorString ''not found'')))
   \<and> isl (GetAvailableUpdates (\<lambda>gvk namespace name. Inr []))"
proof (intro conjI)
  let ?s1 = "[(''availableUpdates'',
               ISlice [IMap [(''version'', IString ''4.15.10''), (''image'', IString ''quay.io/a'')],
                       IString ''malformed'',
                       IMap [(''image'', IString ''quay.io/b'')],
                       IMap [(''version'', IString ''4.16.0'')]])]"
  let ?k1 = "(\<lambda>gvk namespace name. Inr [(''status'', IMap ?s1)]) :: Kubernetes"
  show "GetAvailableUpdates ?k1
     = Inr [\<lparr>Update.Version = ''4.15.10'', Image = ''quay.io/a''\<rparr>,
            \<lparr>Update.Version = ''4.16.0'', Image = ''''\<rparr>]"
    using GetAvailableUpdates_result [of ?k1, THEN conjunct2, rule_format,
        of "[(''status'', IMap ?s1)]" ?s1]
    by (simp add: index_def field_def hasVersion_spec_def updateOf_spec_def nonEmptyString_def
        stringOrEmpty_def)
next
  let ?k2 = "(\<lambda>gvk namespace name. Inr [(''status'', IMap [])]) :: Kubernetes"
  show "GetAvailableUpdates ?k2 = Inr []"
    using GetAvailableUpdates_result [of ?k2, THEN conjunct2, rule_format,
        of "[(''status'', IMap [])]" "[]"]
    by (simp add: index_def field_def)
next
  let ?k3 = "(\<lambda>gvk namespace name. Inl (ErrorString ''not found'')) :: Kubernetes"
  show "isl (GetAvailableUpdates ?k3)"
    using GetAvailableUpdates_result [of ?k3, THEN conjunct1]
    by simp
next
  let ?k4 = "(\<lambda>gvk namespace name. Inr []) :: Kubernetes"
  show "isl (GetAvailableUpdates ?k4)"
    using GetAvailableUpdates_result [of ?k4, THEN conjunct1]
    by (simp add: index_def)
qed

section \<open>The capability probe and the capability-gated provider\<close>

text \<open>
  C4. \<open>IsOpenShift\<close> returns a boolean for every client: true exactly when the list
  request for the projects resource succeeds, so false whenever that request fails (no
  error reaches the caller); and the request it decides on is the one with limit 1 and
  a timeout of 5 seconds.
\<close>

theorem IsOpenShift_probe:
  "(IsOpenShift dynamicClient \<longleftrightarrow>
      (\<exists>l. dynamicClient (GroupVersionResource ''project.openshift.io'' ''v1'' ''projects'')
              \<lparr>Limit = 1, TimeoutSeconds = Some 5\<rparr> = Inr l))
   \<and> (\<forall>err. dynamicClient (GroupVersionResource ''project.openshift.io'' ''v1'' ''projects'')
              \<lparr>Limit = 1, TimeoutSeconds = Some 5\<rparr> = Inl err \<longrightarrow>
            IsOpenShift dynamicClient = False)
   \<and> (\<forall>other. (\<forall>opts. TimeoutSeconds opts = Some 5 \<longrightarrow>
                   (\<forall>gvr. isl (other gvr opts) = isl (dynamicClient gvr opts))) \<longrightarrow>
            IsOpenShift other = IsOpenShift dynamicClient)"
proof (intro conjI allI impI)
  show "IsOpenShift dynamicClient \<longleftrightarrow>
      (\<exists>l. dynamicClient (GroupVersionResource ''project.openshift.io'' ''v1'' ''projects'')
              \<lparr>Limit = 1, TimeoutSeconds = Some 5\<rparr> = Inr l)"
    by (simp add: IsOpenShift_def split: sum.split)
next
  fix err
  assume "dynamicClient (GroupVersionResource ''project.openshift.io'' ''v1'' ''projects'')
              \<lparr>Limit = 1, TimeoutSeconds = Some 5\<rparr> = Inl err"
  then show "IsOpenShift dynamicClient = False"
    by (simp add: IsOpenShift_def)
next
  fix other :: "GroupVersionResource \<Rightarrow> ListOptions \<Rightarrow> error + 'b"
  assume same: "\<forall>opts. TimeoutSeconds opts = Some 5 \<longrightarrow>
                   (\<forall>gvr. isl (other gvr opts) = isl (dynamicClient gvr opts))"
  let ?gvr = "GroupVersionResource ''project.openshift.io'' ''v1'' ''projects''"
  let ?opts = "\<lparr>Limit = 1, TimeoutSeconds = Some 5\<rparr>"
  from same have "isl (other ?gvr ?opts) = isl (dynamicClient ?gvr ?opts)"
    by simp
  then show "IsOpenShift other = IsOpenShift dynamicClient"
    by (cases "other ?gvr ?opts"; cases "dynamicClient ?gvr ?opts")
      (simp_all add: IsOpenShift_def)
qed

theorem IsOpenShift_probe_witness:
  "IsOpenShift (\<lambda>gvr opts. if TimeoutSeconds opts = Some 5 then Inl (ErrorString ''forbidden'')
                            else Inr ()) = False
   \<and> IsOpenShift (\<lambda>gvr opts. if TimeoutSeconds opts = Some 5 then Inr ()
                              else Inl (ErrorString ''no deadline'')) = True
   \<and> IsOpenShift (\<lambda>gvr opts. Inr () :: error + unit)
     = IsOpenShift (\<lambda>gvr opts. if TimeoutSeconds opts = Some 5 then Inr ()
                                else Inl (ErrorString ''no deadline''))"
proof (intro conjI)
  let ?c2 = "\<lambda>(gvr::GroupVersionResource) opts.
      if TimeoutSeconds opts = Some 5 then Inr () else Inl (ErrorString ''no deadline'')"
  let ?c3 = "\<lambda>(gvr::GroupVersionResource) (opts::ListOptions). Inr () :: error + unit"
  show "IsOpenShift ?c3 = IsOpenShift ?c2"
    using IsOpenShift_probe [of ?c2, THEN conjunct2, THEN conjunct2, rule_format, of ?c3]
    by simp
next
  let ?c1 = "\<lambda>(gvr::GroupVersionResource) opts.
      if TimeoutSeconds opts = Some 5 then Inl (ErrorString ''forbidden'') else Inr ()"
  show "IsOpenShift ?c1 = False"
    using IsOpenShift_probe [of ?c1, THEN conjunct2, THEN conjunct1, rule_format,
        of "ErrorString ''forbidden''"]
    by simp
next
  let ?c2 = "\<lambda>(gvr::GroupVersionResource) opts.
      if TimeoutSeconds opts = Some 5 then Inr () else Inl (ErrorString ''no deadline'')"
  show "IsOpenShift ?c2 = True"
    using IsOpenShift_probe [of ?c2, THEN conjunct1]
    by simp
qed

text \<open>
  C5. When the probe is false, \<open>initOpenShift\<close> returns no tool (and, returning a list
  only, no error). When the probe is true it returns its four tools, the same for every
  cluster: the version, the available updates, the capabilities and the update
  history, each bound to its handler and annotated read-only, non-destructive and
  open-world.
\<close>

theorem initOpenShift_gated:
  "(\<not> IsOpenShift k \<longrightarrow> initOpenShift k = [])
   \<and> (IsOpenShift k \<longrightarrow>
        map (\<lambda>t. (Name (Tool t), Handler t)) (initOpenShift k) =
          [(''cluster_version_get'', Some H_openShiftClusterVersion),
           (''cluster_available_updates_list'', Some H_openShiftAvailableUpdates),
           (''cluster_capabilities_get'', Some H_openShiftCapabilities),
           (''cluster_update_history_list'', Some H_openShiftUpdateHistory)]
        \<and> list_all (\<lambda>t. ReadOnlyHint (Tool t) = Some True
                         \<and> DestructiveHint (Tool t) = Some False
                         \<and> OpenWorldHint (Tool t) = Some True) (initOpenShift k)
        \<and> initOpenShift k = initOpenShift (\<lambda>gvr opts. Inr ()))"
proof (intro conjI impI)
  assume "\<not> IsOpenShift k"
  then show "initOpenShift k = []"
    by (simp add: initOpenShift_def)
next
  assume "IsOpenShift k"
  then show "map (\<lambda>t. (Name (Tool t), Handler t)) (initOpenShift k) =
          [(''cluster_version_get'', Some H_openShiftClusterVersion),
           (''cluster_available_updates_list'', Some H_openShiftAvailableUpdates),
           (''cluster_capabilities_get'', Some H_openShiftCapabilities),
           (''cluster_update_history_list'', Some H_openShiftUpdateHistory)]"
    by (simp add: initOpenShift_def)
next
  assume "IsOpenShift k"
  then show "list_all (\<lambda>t. ReadOnlyHint (Tool t) = Some True
                         \<and> DestructiveHint (Tool t) = Some False
                         \<and> OpenWorldHint (Tool t) = Some True) (initOpenShift k)"
    by (simp add: initOpenShift_def)
next
  have "IsOpenShift (\<lambda>(gvr::GroupVersionResource) (opts::ListOptions). Inr () :: error + unit)"
    by (simp add: IsOpenShift_def)
  moreover assume "IsOpenShift k"
  ultimately show "initOpenShift k = initOpenShift (\<lambda>gvr opts. Inr ())"
    by (simp add: initOpenShift_def)
qed

theorem initOpenShift_gated_witness:
  "initOpenShift
     (\<lambda>gvr opts. Inl (ErrorString ''the server could not find the resource'') :: error + unit) = []
   \<and> map (\<lambda>t. Name (Tool t))
       (initOpenShift (\<lambda>gvr opts. Inr [''default''] :: error + string list))
     = [''cluster_version_get'', ''cluster_available_updates_list'',
        ''cluster_capabilities_get'', ''cluster_update_history_list'']"
proof (intro conjI)
  let ?k1 = "\<lambda>(gvr::GroupVersionResource) (opts::ListOptions).
      Inl (ErrorString ''the server could not find the resource'') :: error + unit"
  have "\<not> IsOpenShift ?k1"
    by (simp add: IsOpenShift_def)
  then show "initOpenShift ?k1 = []"
    using initOpenShift_gated [of ?k1] by simp
next
  let ?k2 = "\<lambda>(gvr::GroupVersionResource) (opts::ListOptions).
      Inr [''default''] :: error + string list"
  have probe: "IsOpenShift ?k2"
    by (simp add: IsOpenShift_def)
  have "map (\<lambda>t. (Name (Tool t), Handler t)) (initOpenShift ?k2) =
          [(''cluster_version_get'', Some H_openShiftClusterVersion),
           (''cluster_available_updates_list'', Some H_openShiftAvailableUpdates),
           (''cluster_capabilities_get'', Some H_openShiftCapabilities),
           (''cluster_update_history_list'', Some H_openShiftUpdateHistory)]"
    using initOpenShift_gated [of ?k2] probe by blast
  then have "map fst (map (\<lambda>t. (Name (Tool t), Handler t)) (initOpenShift ?k2)) =
      [''cluster_version_get'', ''cluster_available_updates_list'',
       ''cluster_capabilities_get'', ''cluster_update_history_list'']"
    by simp
  then show "map (\<lambda>t. Name (Tool t)) (initOpenShift ?k2) =
      [''cluster_version_get'', ''cluster_available_updates_list'',
       ''cluster_capabilities_get'', ''cluster_update_history_list'']"
    by (simp add: comp_def)
qed

section \<open>Flags over the configuration file\<close>

text \<open>
  C10. On a command that has the eight flags, \<open>loadFlags\<close> returns the options with a
  static configuration in which a field holds the option's value when its flag was
  changed, and the value it had before otherwise; the list output is also taken from
  the options when it was empty before. The fields without a flag (the enabled and
  disabled tools) and the options themselves are left as they were.
\<close>

theorem loadFlags_frame:
  assumes "cmd ''log-level'' = Some logLevel"
    and "cmd ''sse-port'' = Some ssePort"
    and "cmd ''http-port'' = Some httpPort"
    and "cmd ''sse-base-url'' = Some sseBaseUrl"
    and "cmd ''kubeconfig'' = Some kubeconfig"
    and "cmd ''list-output'' = Some listOutput"
    and "cmd ''read-only'' = Some readOnly"
    and "cmd ''disable-destructive'' = Some disableDestructive"
  shows "\<exists>sc'. loadFlags cmd m = Some (m\<lparr>MCPServerOptions.StaticConfig := sc'\<rparr>)
    \<and> StaticConfig.LogLevel sc' =
        (if Changed logLevel then MCPServerOptions.LogLevel m
         else StaticConfig.LogLevel (MCPServerOptions.StaticConfig m))
    \<and> StaticConfig.SSEPort sc' =
        (if Changed ssePort then MCPServerOptions.SSEPort m
         else StaticConfig.SSEPort (MCPServerOptions.StaticConfig m))
    \<and> HTTPPort sc' =
        (if Changed httpPort then HttpPort m else HTTPPort (MCPServerOptions.StaticConfig m))
    \<and> SSEBaseURL sc' =
        (if Changed sseBaseUrl then SSEBaseUrl m
         else SSEBaseURL (MCPServerOptions.StaticConfig m))
    \<and> KubeConfig sc' =
        (if Changed kubeconfig then Kubeconfig m
         else KubeConfig (MCPServerOptions.StaticConfig m))
    \<and> StaticConfig.ListOutput sc' =
        (if Changed listOutput \<or> StaticConfig.ListOutput (MCPServerOptions.StaticConfig m) = ''''
         then MCPServerOptions.ListOutput m
         else StaticConfig.ListOutput (MCPServerOptions.StaticConfig m))
    \<and> StaticConfig.ReadOnly sc' =
        (if Changed readOnly then MCPServerOptions.ReadOnly m
         else StaticConfig.ReadOnly (MCPServerOptions.StaticConfig m))
    \<and> StaticConfig.DisableDestructive sc' =
        (if Changed disableDestructive then MCPServerOptions.DisableDestructive m
         else StaticConfig.DisableDestructive (MCPServerOptions.StaticConfig m))
    \<and> EnabledTools sc' = EnabledTools (MCPServerOptions.StaticConfig m)
    \<and> DisabledTools sc' = DisabledTools (MCPServerOptions.StaticConfig m)"
proof -
  define sc where "sc = MCPServerOptions.StaticConfig m"
  define sc1 where
    "sc1 = (if Changed logLevel
            then sc\<lparr>StaticConfig.LogLevel := MCPServerOptions.LogLevel m\<rparr> else sc)"
  define sc2 where
    "sc2 = (if Changed ssePort
            then sc1\<lparr>StaticConfig.SSEPort := MCPServerOptions.SSEPort m\<rparr> else sc1)"
  define sc3 where
    "sc3 = (if Changed httpPort then sc2\<lparr>HTTPPort := HttpPort m\<rparr> else sc2)"
  define sc4 where
    "sc4 = (if Changed sseBaseUrl then sc3\<lparr>SSEBaseURL := SSEBaseUrl m\<rparr> else sc3)"
  define sc5 where
    "sc5 = (if Changed kubeconfig then sc4\<lparr>KubeConfig := Kubeconfig m\<rparr> else sc4)"
  define sc6 where
    "sc6 = (if Changed listOutput \<or> StaticConfig.ListOutput sc5 = ''''
            then sc5\<lparr>StaticConfig.ListOutput := MCPServerOptions.ListOutput m\<rparr> else sc5)"
  define sc7 where
    "sc7 = (if Changed readOnly
            then sc6\<lparr>StaticConfig.ReadOnly := MCPServerOptions.ReadOnly m\<rparr> else sc6)"
  define sc8 where
    "sc8 = (if Changed disableDestructive
            then sc7\<lparr>StaticConfig.DisableDestructive := MCPServerOptions.DisableDestructive m\<rparr>
            else sc7)"
  have run: "loadFlags cmd m = Some (m\<lparr>MCPServerOptions.StaticConfig := sc8\<rparr>)"
    unfolding loadFlags_def Let_def
    by (simp only: assms bind.bind_lunit sc_def sc1_def sc2_def sc3_def sc4_def sc5_def sc6_def
        sc7_def sc8_def)
  have f1: "StaticConfig.LogLevel sc8 =
      (if Changed logLevel then MCPServerOptions.LogLevel m else StaticConfig.LogLevel sc)"
    by (simp add: sc8_def sc7_def sc6_def sc5_def sc4_def sc3_def sc2_def sc1_def)
  have f2: "StaticConfig.SSEPort sc8 =
      (if Changed ssePort then MCPServerOptions.SSEPort m else StaticConfig.SSEPort sc)"
    by (simp add: sc8_def sc7_def sc6_def sc5_def sc4_def sc3_def sc2_def sc1_def)
  have f3: "HTTPPort sc8 = (if Changed httpPort then HttpPort m else HTTPPort sc)"
    by (simp add: sc8_def sc7_def sc6_def sc5_def sc4_def sc3_def sc2_def sc1_def)
  have f4: "SSEBaseURL sc8 = (if Changed sseBaseUrl then SSEBaseUrl m else SSEBaseURL sc)"
    by (simp add: sc8_def sc7_def sc6_def sc5_def sc4_def sc3_def sc2_def sc1_def)
  have f5: "KubeConfig sc8 = (if Changed kubeconfig then Kubeconfig m else KubeConfig sc)"
    by (simp add: sc8_def sc7_def sc6_def sc5_def sc4_def sc3_def sc2_def sc1_def)
  have l5: "StaticConfig.ListOutput sc5 = StaticConfig.ListOutput sc"
    by (simp add: sc5_def sc4_def sc3_def sc2_def sc1_def)
  have f6: "StaticConfig.ListOutput sc8 =
      (if Changed listOutput \<or> StaticConfig.ListOutput sc = ''''
       then MCPServerOptions.ListOutput m else StaticConfig.ListOutput sc)"
    by (simp add: sc8_def sc7_def sc6_def l5)
  have f7: "StaticConfig.ReadOnly sc8 =
      (if Changed readOnly then MCPServerOptions.ReadOnly m else StaticConfig.ReadOnly sc)"
    by (simp add: sc8_def sc7_def sc6_def sc5_def sc4_def sc3_def sc2_def sc1_def)
  have f8: "StaticConfig.DisableDestructive sc8 =
      (if Changed disableDestructive then MCPServerOptions.DisableDestructive m
       else StaticConfig.DisableDestructive sc)"
    by (simp add: sc8_def sc7_def sc6_def sc5_def sc4_def sc3_def sc2_def sc1_def)
  have f9: "EnabledTools sc8 = EnabledTools sc"
    by (simp add: sc8_def sc7_def sc6_def sc5_def sc4_def sc3_def sc2_def sc1_def)
  have f10: "DisabledTools sc8 = DisabledTools sc"
    by (simp add: sc8_def sc7_def sc6_def sc5_def sc4_def sc3_def sc2_def sc1_def)
  from run f1 f2 f3 f4 f5 f6 f7 f8 f9 f10 show ?thesis
    unfolding sc_def by blast
qed

theorem loadFlags_frame_witness:
  "map_option
     (\<lambda>m'. (StaticConfig.LogLevel (MCPServerOptions.StaticConfig m'),
            StaticConfig.SSEPort (MCPServerOptions.StaticConfig m'),
            StaticConfig.ListOutput (MCPServerOptions.StaticConfig m'),
            StaticConfig.ReadOnly (MCPServerOptions.StaticConfig m'),
            StaticConfig.DisableDestructive (MCPServerOptions.StaticConfig m'),
            EnabledTools (MCPServerOptions.StaticConfig m'),
            MCPServerOptions.SSEPort m'))
     (loadFlags (\<lambda>name. Some \<lparr>Changed = (name = ''sse-port'' \<or> name = ''read-only'')\<rparr>)
        \<lparr>MCPServerOptions.Version = False, MCPServerOptions.LogLevel = 0,
         MCPServerOptions.SSEPort = 8080, HttpPort = 0, SSEBaseUrl = '''',
         Kubeconfig = '''', MCPServerOptions.Profile = ''full'',
         MCPServerOptions.ListOutput = ''table'', MCPServerOptions.ReadOnly = True,
         MCPServerOptions.DisableDestructive = False, ConfigPath = ''config.toml'',
         MCPServerOptions.StaticConfig =
           \<lparr>StaticConfig.LogLevel = 2, StaticConfig.SSEPort = 9090, HTTPPort = 0,
            SSEBaseURL = '''', KubeConfig = '''', StaticConfig.ListOutput = ''yaml'',
            StaticConfig.ReadOnly = False, StaticConfig.DisableDestructive = True,
            EnabledTools = [''namespaces_list''], DisabledTools = []\<rparr>\<rparr>)
   = Some (2, 8080, ''yaml'', True, True, [''namespaces_list''], 8080)"
proof -
  let ?cmd = "\<lambda>name. Some \<lparr>Changed = (name = ''sse-port'' \<or> name = ''read-only'')\<rparr>"
  let ?m = "\<lparr>MCPServerOptions.Version = False, MCPServerOptions.LogLevel = 0,
         MCPServerOptions.SSEPort = 8080, HttpPort = 0, SSEBaseUrl = '''',
         Kubeconfig = '''', MCPServerOptions.Profile = ''full'',
         MCPServerOptions.ListOutput = ''table'', MCPServerOptions.ReadOnly = True,
         MCPServerOptions.DisableDestructive = False, ConfigPath = ''config.toml'',
         MCPServerOptions.StaticConfig =
           \<lparr>StaticConfig.LogLevel = 2, StaticConfig.SSEPort = 9090, HTTPPort = 0,
            SSEBaseURL = '''', KubeConfig = '''', StaticConfig.ListOutput = ''yaml'',
            StaticConfig.ReadOnly = False, StaticConfig.DisableDestructive = True,
            EnabledTools = [''namespaces_list''], DisabledTools = []\<rparr>\<rparr>"
  obtain sc' where "loadFlags ?cmd ?m = Some (?m\<lparr>MCPServerOptions.StaticConfig := sc'\<rparr>)"
    and "StaticConfig.LogLevel sc' = 2"
    and "StaticConfig.SSEPort sc' = 8080"
    and "StaticConfig.ListOutput sc' = ''yaml''"
    and "StaticConfig.ReadOnly sc' = True"
    and "StaticConfig.DisableDestructive sc' = True"
    and "EnabledTools sc' = [''namespaces_list'']"
    using loadFlags_frame [of ?cmd "\<lparr>Changed = False\<rparr>" "\<lparr>Changed = True\<rparr>"
        "\<lparr>Changed = False\<rparr>" "\<lparr>Changed = False\<rparr>" "\<lparr>Changed = False\<rparr>"
        "\<lparr>Changed = False\<rparr>" "\<lparr>Changed = True\<rparr>" "\<lparr>Changed = False\<rparr>" ?m]
    by auto
  then show ?thesis
    by simp
qed

section \<open>Invalid names stop the start\<close>

text \<open>
  C6. When the profile name of the options is not a profile, or the output name of
  their static configuration (the one \<open>Run\<close> validates) is not an output, \<open>Run\<close>
  returns an error and nothing has happened before it: the server is not constructed
  and no transport is started.
\<close>

theorem Run_invalid_names:
  assumes "mcp_ProfileFromString w (MCPServerOptions.Profile m) = None
    \<or> output_FromString w (StaticConfig.ListOutput (MCPServerOptions.StaticConfig m)) = None"
  shows "(\<exists>err. fst (Run w m) = Some err) \<and> snd (Run w m) = []"
proof (cases "mcp_ProfileFromString w (MCPServerOptions.Profile m)")
  case None
  then show ?thesis
    by (simp add: Run_def)
next
  case (Some profile)
  with assms have
    "output_FromString w (StaticConfig.ListOutput (MCPServerOptions.StaticConfig m)) = None"
    by simp
  with Some show ?thesis
    by (simp add: Run_def)
qed

theorem Run_invalid_names_witness:
  "(\<exists>err. fst (Run sampleCollaborators (sampleOptions\<lparr>MCPServerOptions.Profile := ''bogus''\<rparr>))
            = Some err)
   \<and> snd (Run sampleCollaborators (sampleOptions\<lparr>MCPServerOptions.Profile := ''bogus''\<rparr>)) = []
   \<and> (\<exists>err. fst (Run sampleCollaborators
          (sampleOptions\<lparr>MCPServerOptions.StaticConfig :=
             sampleStaticConfig\<lparr>StaticConfig.ListOutput := ''json''\<rparr>\<rparr>)) = Some err)
   \<and> snd (Run sampleCollaborators
          (sampleOptions\<lparr>MCPServerOptions.StaticConfig :=
             sampleStaticConfig\<lparr>StaticConfig.ListOutput := ''json''\<rparr>\<rparr>)) = []"
proof -
  let ?m1 = "sampleOptions\<lparr>MCPServerOptions.Profile := ''bogus''\<rparr>"
  let ?m2 = "sampleOptions\<lparr>MCPServerOptions.StaticConfig :=
             sampleStaticConfig\<lparr>StaticConfig.ListOutput := ''json''\<rparr>\<rparr>"
  have "mcp_ProfileFromString sampleCollaborators (MCPServerOptions.Profile ?m1) = None"
    by (simp add: sampleCollaborators_def)
  then have one: "(\<exists>err. fst (Run sampleCollaborators ?m1) = Some err)
      \<and> snd (Run sampleCollaborators ?m1) = []"
    by (intro Run_invalid_names disjI1)
  have "output_FromString sampleCollaborators
      (StaticConfig.ListOutput (MCPServerOptions.StaticConfig ?m2)) = None"
    by (simp add: sampleCollaborators_def)
  then have two: "(\<exists>err. fst (Run sampleCollaborators ?m2) = Some err)
      \<and> snd (Run sampleCollaborators ?m2) = []"
    by (intro Run_invalid_names disjI2)
  from one two show ?thesis
    by blast
qed

lemma Run_sample_serves:
  "Run sampleCollaborators sampleOptions =
    (None,
     [Klog 1 ''Starting kubernetes-mcp-server'' [],
      Klog 1 '' - Config: %s'' [A_String ''''],
      Klog 1 '' - Profile: %s'' [A_String ''full''],
      Klog 1 '' - ListOutput: %s'' [A_String ''table''],
      Klog 1 '' - Read-only mode: %t'' [A_Bool False],
      Klog 1 '' - Disable destructive tools: %t'' [A_Bool False],
      E_NewServer \<lparr>Configuration.Profile = ''full'', Configuration.ListOutput = ''table'',
                   Configuration.StaticConfig = sampleStaticConfig\<rparr>,
      E_ServeStdio,
      E_Close])"
  by (simp add: Run_def sampleCollaborators_def sampleOptions_def sampleStaticConfig_def
      zeroStaticConfig_def)

text \<open>
  The output name \<open>Run\<close> validates is the one of the static configuration: the field
  of the same name in the options themselves, from which \<open>loadFlags\<close> fills it, is
  not read by \<open>Run\<close>.
\<close>

lemma Run_reads_static_ListOutput:
  "Run w (m\<lparr>MCPServerOptions.ListOutput := name\<rparr>) = Run w m"
proof -
  let ?m = "m\<lparr>MCPServerOptions.ListOutput := name\<rparr>"
  have same: "MCPServerOptions.Profile ?m = MCPServerOptions.Profile m"
      "MCPServerOptions.StaticConfig ?m = MCPServerOptions.StaticConfig m"
      "ConfigPath ?m = ConfigPath m"
      "MCPServerOptions.Version ?m = MCPServerOptions.Version m"
    by simp_all
  show ?thesis
    unfolding Run_def same ..
qed

section \<open>Failures of a handler are results of the call\<close>

lemma openShiftCapabilities_marshal:
  assumes "GetCapabilities derived = Inr caps"
    and "MarshalYaml
           (case asString (index arguments ''type'') of
              Some s \<Rightarrow>
                if s = ''enabled'' then Y_Strings (Enabled caps)
                else if s = ''known'' then Y_Strings (Known caps)
                else Y_Capabilities caps
            | None \<Rightarrow> Y_Capabilities caps) = Inl err"
  shows "openShiftCapabilities NewTextResult MarshalYaml derived arguments =
          (NewTextResult ''''
             (Some (ErrorString (''failed to marshal capabilities: '' @ Error err))), None)"
proof (cases "index arguments ''type''")
  case (IString s)
  with assms show ?thesis
    by (simp add: openShiftCapabilities_def)
qed (use assms in \<open>simp_all add: openShiftCapabilities_def\<close>)

lemma ocCliExec_transport:
  "snd (ocCliExec ErrorToolResult TextToolResult Bind CombinedOutput) = None"
proof (cases "Bind ''command''")
  case (Inl err)
  then show ?thesis
    by (simp add: ocCliExec_def)
next
  case (Inr args)
  obtain out e where "ExecuteOcCommand CombinedOutput args = (out, e)"
    by (cases "ExecuteOcCommand CombinedOutput args")
  with Inr show ?thesis
    by (cases e) (simp_all add: ocCliExec_def)
qed

lemma openShiftCapabilities_transport:
  "snd (openShiftCapabilities NewTextResult MarshalYaml derived arguments) = None"
  by (simp add: openShiftCapabilities_def Let_def split: sum.split)

text \<open>
  C7. When the operation behind a handler fails (the read of the cluster, the
  rendering of its result, the binding of the arguments or the run of the command),
  the handler returns the result built from that error, whose text carries the text of
  the failure, and a nil transport-level error. The transport-level error of the five
  handlers is nil on every call.
\<close>

theorem handler_failure_is_result:
  "(\<forall>err. GetClusterVersion derived = Inl err \<longrightarrow>
      openShiftClusterVersion NewTextResult derived =
        (NewTextResult ''''
           (Some (ErrorString (''failed to get OpenShift cluster version: '' @ Error err))),
         None))
   \<and> (\<forall>err. GetAvailableUpdates derived = Inl err \<longrightarrow>
      openShiftAvailableUpdates NewTextResult MarshalYaml derived =
        (NewTextResult ''''
           (Some (ErrorString (''failed to get OpenShift available updates: '' @ Error err))),
         None))
   \<and> (\<forall>updates err.
      GetAvailableUpdates derived = Inr updates \<longrightarrow> MarshalYaml (Y_Updates updates) = Inl err \<longrightarrow>
      openShiftAvailableUpdates NewTextResult MarshalYaml derived =
        (NewTextResult ''''
           (Some (ErrorString (''failed to marshal available updates: '' @ Error err))),
         None))
   \<and> (\<forall>err. GetCapabilities derived = Inl err \<longrightarrow>
      openShiftCapabilities NewTextResult MarshalYaml derived arguments =
        (NewTextResult ''''
           (Some (ErrorString (''failed to get OpenShift capabilities: '' @ Error err))),
         None))
   \<and> (\<forall>caps err.
      GetCapabilities derived = Inr caps \<longrightarrow>
      MarshalYaml
        (case asString (index arguments ''type'') of
           Some s \<Rightarrow>
             if s = ''enabled'' then Y_Strings (Enabled caps)
             else if s = ''known'' then Y_Strings (Known caps)
             else Y_Capabilities caps
         | None \<Rightarrow> Y_Capabilities caps) = Inl err \<longrightarrow>
      openShiftCapabilities NewTextResult MarshalYaml derived arguments =
        (NewTextResult ''''
           (Some (ErrorString (''failed to marshal capabilities: '' @ Error err))),
         None))
   \<and> (\<forall>err. GetUpdateHistory derived = Inl err \<longrightarrow>
      openShiftUpdateHistory NewTextResult MarshalYaml derived =
        (NewTextResult ''''
           (Some (ErrorString (''failed to get OpenShift update history: '' @ Error err))),
         None))
   \<and> (\<forall>history err.
      GetUpdateHistory derived = Inr history \<longrightarrow> MarshalYaml (Y_History history) = Inl err \<longrightarrow>
      openShiftUpdateHistory NewTextResult MarshalYaml derived =
        (NewTextResult ''''
           (Some (ErrorString (''failed to marshal update history: '' @ Error err))),
         None))
   \<and> (\<forall>err. Bind ''command'' = Inl err \<longrightarrow>
      ocCliExec ErrorToolResult TextToolResult Bind CombinedOutput =
        (ErrorToolResult (Error err), None))
   \<and> (\<forall>args output err.
      Bind ''command'' = Inr args \<longrightarrow>
      ExecuteOcCommand CombinedOutput args = (output, Some err) \<longrightarrow>
      ocCliExec ErrorToolResult TextToolResult Bind CombinedOutput =
        (ErrorToolResult (output @ [CHR 0x0A] @ Error err), None))
   \<and> snd (openShiftClusterVersion NewTextResult derived) = None
   \<and> snd (openShiftAvailableUpdates NewTextResult MarshalYaml derived) = None
   \<and> snd (openShiftCapabilities NewTextResult MarshalYaml derived arguments) = None
   \<and> snd (openShiftUpdateHistory NewTextResult MarshalYaml derived) = None
   \<and> snd (ocCliExec ErrorToolResult TextToolResult Bind CombinedOutput) = None"
proof (intro conjI allI impI)
  fix caps err
  assume "GetCapabilities derived = Inr caps"
    and "MarshalYaml
        (case asString (index arguments ''type'') of
           Some s \<Rightarrow>
             if s = ''enabled'' then Y_Strings (Enabled caps)
             else if s = ''known'' then Y_Strings (Known caps)
             else Y_Capabilities caps
         | None \<Rightarrow> Y_Capabilities caps) = Inl err"
  then show "openShiftCapabilities NewTextResult MarshalYaml derived arguments =
        (NewTextResult ''''
           (Some (ErrorString (''failed to marshal capabilities: '' @ Error err))),
         None)"
    by (rule openShiftCapabilities_marshal)
next
  show "snd (openShiftCapabilities NewTextResult MarshalYaml derived arguments) = None"
    by (rule openShiftCapabilities_transport)
next
  show "snd (ocCliExec ErrorToolResult TextToolResult Bind CombinedOutput) = None"
    by (rule ocCliExec_transport)
qed (simp_all add: openShiftClusterVersion_def openShiftAvailableUpdates_def
    openShiftCapabilities_def openShiftUpdateHistory_def ocCliExec_def split: sum.split)

theorem handler_failure_is_result_witness:
  "openShiftClusterVersion Pair (\<lambda>gvk namespace name. Inl (ErrorString ''connection refused''))
     = (('''', Some (ErrorString (''failed to get OpenShift cluster version: '' @
          ''cannot retrieve OpenShift ClusterVersion resource: connection refused''))), None)
   \<and> openShiftAvailableUpdates Pair (\<lambda>v. Inl (ErrorString ''cannot marshal''))
       (\<lambda>gvk namespace name. Inl (ErrorString ''connection refused''))
     = (('''', Some (ErrorString (''failed to get OpenShift available updates: '' @
          ''cannot retrieve OpenShift ClusterVersion resource: connection refused''))), None)
   \<and> openShiftAvailableUpdates Pair (\<lambda>v. Inl (ErrorString ''cannot marshal''))
       (\<lambda>gvk namespace name. Inr [(''status'', IMap [(''capabilities'', IMap [])])])
     = (('''', Some (ErrorString ''failed to marshal available updates: cannot marshal'')), None)
   \<and> openShiftCapabilities Pair (\<lambda>v. Inl (ErrorString ''cannot marshal''))
       (\<lambda>gvk namespace name. Inl (ErrorString ''connection refused'')) []
     = (('''', Some (ErrorString (''failed to get OpenShift capabilities: '' @
          ''cannot retrieve OpenShift ClusterVersion resource: connection refused''))), None)
   \<and> openShiftCapabilities Pair (\<lambda>v. Inl (ErrorString ''cannot marshal''))
       (\<lambda>gvk namespace name. Inr [(''status'', IMap [(''capabilities'', IMap [])])])
       [(''type'', IString ''enabled'')]
     = (('''', Some (ErrorString ''failed to marshal capabilities: cannot marshal'')), None)
   \<and> openShiftUpdateHistory Pair (\<lambda>v. Inl (ErrorString ''cannot marshal''))
       (\<lambda>gvk namespace name. Inl (ErrorString ''connection refused''))
     = (('''', Some (ErrorString (''failed to get OpenShift update history: '' @
          ''cannot retrieve OpenShift ClusterVersion resource: connection refused''))), None)
   \<and> openShiftUpdateHistory Pair (\<lambda>v. Inl (ErrorString ''cannot marshal''))
       (\<lambda>gvk namespace name. Inr [(''status'', IMap [(''capabilities'', IMap [])])])
     = (('''', Some (ErrorString ''failed to marshal update history: cannot marshal'')), None)
   \<and> ocCliExec Inl Inr (\<lambda>name. Inl (ErrorString ''parameter command is missing''))
       (\<lambda>program args. ('''', None))
     = (Inl ''parameter command is missing'', None)
   \<and> ocCliExec Inl Inr (\<lambda>name. Inr [''frobnicate''])
       (\<lambda>program args. (''unknown command'' @ [CHR 0x0A], Some (ErrorString ''exit status 1'')))
     = (Inl (''unknown command'' @ [CHR 0x0A] @ ''exit status 1''), None)"
proof -
  let ?down = "(\<lambda>gvk namespace name. Inl (ErrorString ''connection refused'')) :: Kubernetes"
  let ?up = "(\<lambda>gvk namespace name. Inr [(''status'', IMap [(''capabilities'', IMap [])])])
               :: Kubernetes"
  let ?yaml = "(\<lambda>v. Inl (ErrorString ''cannot marshal'')) :: yamlValue \<Rightarrow> error + string"
  let ?ntr = "Pair :: string \<Rightarrow> error option \<Rightarrow> string \<times> error option"
  let ?etr = "Inl :: string \<Rightarrow> string + string"
  let ?ttr = "Inr :: string \<Rightarrow> string + string"
  let ?nobind = "(\<lambda>name. Inl (ErrorString ''parameter command is missing''))
                  :: string \<Rightarrow> error + string list"
  let ?bind = "(\<lambda>name. Inr [''frobnicate'']) :: string \<Rightarrow> error + string list"
  let ?idle = "(\<lambda>program args. ('''', None)) :: string \<Rightarrow> string list \<Rightarrow> string \<times> error option"
  let ?oc = "(\<lambda>program args. (''unknown command'' @ [CHR 0x0A], Some (ErrorString ''exit status 1'')))
                :: string \<Rightarrow> string list \<Rightarrow> string \<times> error option"
  note down = handler_failure_is_result [where derived = ?down and NewTextResult = ?ntr
      and MarshalYaml = ?yaml and arguments = "[]" and Bind = ?nobind
      and ErrorToolResult = ?etr and TextToolResult = ?ttr and CombinedOutput = ?idle]
  note up = handler_failure_is_result [where derived = ?up and NewTextResult = ?ntr
      and MarshalYaml = ?yaml and arguments = "[(''type'', IString ''enabled'')]"
      and Bind = ?bind and ErrorToolResult = ?etr and TextToolResult = ?ttr
      and CombinedOutput = ?oc]
  have get: "GetClusterVersion ?down =
        Inl (WrapError ''cannot retrieve OpenShift ClusterVersion resource: connection refused''
               (ErrorString ''connection refused''))"
      "GetAvailableUpdates ?down =
        Inl (WrapError ''cannot retrieve OpenShift ClusterVersion resource: connection refused''
               (ErrorString ''connection refused''))"
      "GetCapabilities ?down =
        Inl (WrapError ''cannot retrieve OpenShift ClusterVersion resource: connection refused''
               (ErrorString ''connection refused''))"
      "GetUpdateHistory ?down =
        Inl (WrapError ''cannot retrieve OpenShift ClusterVersion resource: connection refused''
               (ErrorString ''connection refused''))"
    by (simp_all add: GetClusterVersion_def GetAvailableUpdates_def GetCapabilities_def
        GetUpdateHistory_def)
  have got: "GetAvailableUpdates ?up = Inr []"
      "GetCapabilities ?up = Inr \<lparr>Enabled = [], Known = []\<rparr>"
      "GetUpdateHistory ?up = Inr []"
    by (simp_all add: GetAvailableUpdates_def GetCapabilities_def GetUpdateHistory_def index_def)
  have ran: "ExecuteOcCommand ?oc [''frobnicate''] =
      (''unknown command'', Some (ErrorString ''exit status 1''))"
  proof -
    have "strings_TrimSpace (''unknown command'' @ [CHR 0x0A]) = ''unknown command''"
      by code_simp
    then show ?thesis
      by (simp add: ExecuteOcCommand_def)
  qed
  have c1: "openShiftClusterVersion ?ntr ?down
     = (('''', Some (ErrorString (''failed to get OpenShift cluster version: '' @
          ''cannot retrieve OpenShift ClusterVersion resource: connection refused''))), None)"
    using down get by simp
  have c2: "openShiftAvailableUpdates ?ntr ?yaml ?down
     = (('''', Some (ErrorString (''failed to get OpenShift available updates: '' @
          ''cannot retrieve OpenShift ClusterVersion resource: connection refused''))), None)"
    using down get by simp
  have c3: "openShiftAvailableUpdates ?ntr ?yaml ?up
     = (('''', Some (ErrorString ''failed to marshal available updates: cannot marshal'')), None)"
    using up got by simp
  have c4: "openShiftCapabilities ?ntr ?yaml ?down []
     = (('''', Some (ErrorString (''failed to get OpenShift capabilities: '' @
          ''cannot retrieve OpenShift ClusterVersion resource: connection refused''))), None)"
    using down get by simp
  have c5: "openShiftCapabilities ?ntr ?yaml ?up [(''type'', IString ''enabled'')]
     = (('''', Some (ErrorString ''failed to marshal capabilities: cannot marshal'')), None)"
    using up got by simp
  have c6: "openShiftUpdateHistory ?ntr ?yaml ?down
     = (('''', Some (ErrorString (''failed to get OpenShift update history: '' @
          ''cannot retrieve OpenShift ClusterVersion resource: connection refused''))), None)"
    using down get by simp
  have c7: "openShiftUpdateHistory ?ntr ?yaml ?up
     = (('''', Some (ErrorString ''failed to marshal update history: cannot marshal'')), None)"
    using up got by simp
  have c8: "ocCliExec ?etr ?ttr ?nobind ?idle = (Inl ''parameter command is missing'', None)"
    using down by simp
  have c9: "ocCliExec ?etr ?ttr ?bind ?oc
     = (Inl (''unknown command'' @ [CHR 0x0A] @ ''exit status 1''), None)"
    using up ran by simp
  from c1 c2 c3 c4 c5 c6 c7 c8 c9 show ?thesis
    by (intro conjI)
qed

section \<open>Precedence in the visibility filter\<close>

text \<open>
  C1. With a non-empty list of enabled tools, a tool is applicable exactly when its
  name is in that list; the disabled tools, the read-only flag and the
  disable-destructive flag can be changed at will without changing the answer.
\<close>

theorem isToolApplicable_allow_list:
  assumes "EnabledTools (Configuration.StaticConfig c) \<noteq> []"
  shows "(isToolApplicable c tool \<longleftrightarrow>
            Name (Tool tool) \<in> set (EnabledTools (Configuration.StaticConfig c)))
    \<and> isToolApplicable
        (c\<lparr>Configuration.StaticConfig :=
             (Configuration.StaticConfig c)
               \<lparr>DisabledTools := disabled, StaticConfig.ReadOnly := readOnly,
                StaticConfig.DisableDestructive := disableDestructive\<rparr>\<rparr>) tool
      = isToolApplicable c tool"
  using assms by (simp add: isToolApplicable_def)

theorem isToolApplicable_allow_list_witness:
  "isToolApplicable
     (testConfiguration (zeroStaticConfig\<lparr>EnabledTools := [''namespaces_list'']\<rparr>))
     (testTool ''namespaces_list'' None None)
   \<and> \<not> isToolApplicable
     (testConfiguration (zeroStaticConfig\<lparr>EnabledTools := [''namespaces_list'']\<rparr>))
     (testTool ''pods_list'' (Some True) (Some False))
   \<and> isToolApplicable
     (testConfiguration
        (zeroStaticConfig\<lparr>EnabledTools := [''namespaces_list''],
           DisabledTools := [''namespaces_list''], StaticConfig.ReadOnly := True,
           StaticConfig.DisableDestructive := True\<rparr>))
     (testTool ''namespaces_list'' None None)"
proof -
  let ?c = "testConfiguration (zeroStaticConfig\<lparr>EnabledTools := [''namespaces_list'']\<rparr>)"
  have enabled: "EnabledTools (Configuration.StaticConfig ?c) \<noteq> []"
    by (simp add: testConfiguration_def)
  note allow = isToolApplicable_allow_list [OF enabled]
  have one: "isToolApplicable ?c (testTool ''namespaces_list'' None None)"
    using allow [where tool = "testTool ''namespaces_list'' None None"]
    by (simp add: testConfiguration_def testTool_def)
  have two: "\<not> isToolApplicable ?c (testTool ''pods_list'' (Some True) (Some False))"
    using allow [where tool = "testTool ''pods_list'' (Some True) (Some False)"]
    by (simp add: testConfiguration_def testTool_def)
  have "isToolApplicable
      (?c\<lparr>Configuration.StaticConfig :=
           (Configuration.StaticConfig ?c)
             \<lparr>DisabledTools := [''namespaces_list''], StaticConfig.ReadOnly := True,
              StaticConfig.DisableDestructive := True\<rparr>\<rparr>)
      (testTool ''namespaces_list'' None None)"
    using allow [where tool = "testTool ''namespaces_list'' None None"
        and disabled = "[''namespaces_list'']" and readOnly = True and disableDestructive = True]
      one
    by simp
  then have three: "isToolApplicable
     (testConfiguration
        (zeroStaticConfig\<lparr>EnabledTools := [''namespaces_list''],
           DisabledTools := [''namespaces_list''], StaticConfig.ReadOnly := True,
           StaticConfig.DisableDestructive := True\<rparr>))
     (testTool ''namespaces_list'' None None)"
    by (simp add: testConfiguration_def)
  from one two three show ?thesis
    by (intro conjI)
qed

text \<open>
  C2. With disable-destructive set, no enabled tools, the tool not disabled and
  read-only mode off, a tool whose destructive annotation is true is applicable exactly
  when its read-only annotation is true.
\<close>

theorem isToolApplicable_disable_destructive:
  assumes "StaticConfig.DisableDestructive (Configuration.StaticConfig c)"
    and "EnabledTools (Configuration.StaticConfig c) = []"
    and "Name (Tool tool) \<notin> set (DisabledTools (Configuration.StaticConfig c))"
    and "\<not> StaticConfig.ReadOnly (Configuration.StaticConfig c)"
    and "DestructiveHint (Tool tool) = Some True"
  shows "isToolApplicable c tool \<longleftrightarrow> ReadOnlyHint (Tool tool) = Some True"
proof (cases "ReadOnlyHint (Tool tool)")
  case None
  with assms show ?thesis
    by (simp add: isToolApplicable_def readOnlyAnnotation_def destructiveAnnotation_def)
next
  case (Some b)
  with assms show ?thesis
    by (simp add: isToolApplicable_def readOnlyAnnotation_def destructiveAnnotation_def)
qed

theorem isToolApplicable_disable_destructive_witness:
  "isToolApplicable
     (testConfiguration (zeroStaticConfig\<lparr>StaticConfig.DisableDestructive := True\<rparr>))
     (testTool '''' (Some True) (Some True))
   \<and> \<not> isToolApplicable
     (testConfiguration (zeroStaticConfig\<lparr>StaticConfig.DisableDestructive := True\<rparr>))
     (testTool '''' None (Some True))
   \<and> \<not> isToolApplicable
     (testConfiguration (zeroStaticConfig\<lparr>StaticConfig.DisableDestructive := True\<rparr>))
     (testTool '''' (Some False) (Some True))"
proof -
  let ?c = "testConfiguration (zeroStaticConfig\<lparr>StaticConfig.DisableDestructive := True\<rparr>)"
  have c: "StaticConfig.DisableDestructive (Configuration.StaticConfig ?c)"
      "EnabledTools (Configuration.StaticConfig ?c) = []"
      "\<not> StaticConfig.ReadOnly (Configuration.StaticConfig ?c)"
      "DisabledTools (Configuration.StaticConfig ?c) = []"
    by (simp_all add: testConfiguration_def zeroStaticConfig_def)
  have one: "isToolApplicable ?c (testTool '''' (Some True) (Some True))"
    using isToolApplicable_disable_destructive [of ?c "testTool '''' (Some True) (Some True)"] c
    by (simp add: testTool_def)
  have two: "\<not> isToolApplicable ?c (testTool '''' None (Some True))"
    using isToolApplicable_disable_destructive [of ?c "testTool '''' None (Some True)"] c
    by (simp add: testTool_def)
  have three: "\<not> isToolApplicable ?c (testTool '''' (Some False) (Some True))"
    using isToolApplicable_disable_destructive [of ?c "testTool '''' (Some False) (Some True)"] c
    by (simp add: testTool_def)
  from one two three show ?thesis
    by (intro conjI)
qed

end
